theory Spec2Isabelle
  imports Complex_Main "HOL-Library.Word"
begin

unbundle bit_operations_syntax

section \<open>Machine types\<close>

text \<open>
  The Go programs work on \<open>byte\<close>/\<open>uint8\<close>, \<open>uint16\<close>, \<open>int32\<close> and \<open>float64\<close>.
  The integer types are words of their width: conversions truncate or zero-extend
  (\<open>ucast\<close>), \<open><<\<close> is \<open>push_bit\<close>, \<open>|\<close> is \<open>OR\<close>, and a signed comparison reads the
  word through \<open>sint\<close>. \<open>float64\<close> is idealised as \<open>real\<close>: the conversion
  \<open>float64(value)\<close> of an \<open>int32\<close> is exact, and the rounding of the one division of
  the normaliser is not modelled. Go's \<open>int\<close> (player numbers, log levels) is only ever
  compared with small constants and is an unbounded \<open>int\<close> here.
\<close>

type_synonym byte = "8 word"
type_synonym uint8 = "8 word"
type_synonym uint16 = "16 word"
type_synonym int32 = "32 word"
type_synonym float64 = real

section \<open>The controller state\<close>

text \<open>
  Modelled from the spec: the struct types \<open>nscon.ControllerInput\<close> and
  \<open>nscon.Controller\<close> are declared in the imported package \<open>nscon\<close>, which is not among
  the source files. The record has the fields the programs write (and section 3 of the
  specification lists): the four d-pad directions, eleven buttons, and for each stick
  its \<open>X\<close>, \<open>Y\<close> and \<open>Press\<close>. A nested Go field \<open>con.Input.Stick.Left.X\<close> is the flat
  field \<open>Stick_Left_X\<close>. Digital fields are \<open>uint8\<close>, analog fields \<open>float64\<close>.
\<close>

record ControllerInput =
  Dpad_Up :: uint8
  Dpad_Down :: uint8
  Dpad_Left :: uint8
  Dpad_Right :: uint8
  Button_A :: uint8
  Button_B :: uint8
  Button_X :: uint8
  Button_Y :: uint8
  Button_L :: uint8
  Button_R :: uint8
  Button_ZL :: uint8
  Button_ZR :: uint8
  Button_Minus :: uint8
  Button_Plus :: uint8
  Button_Home :: uint8
  Stick_Left_X :: float64
  Stick_Left_Y :: float64
  Stick_Left_Press :: uint8
  Stick_Right_X :: float64
  Stick_Right_Y :: float64
  Stick_Right_Press :: uint8

text \<open>
  Modelled from the spec: \<open>nscon.Controller\<close>, the controller-protocol handle. Of its
  fields the programs use the endpoint path given to \<open>NewController\<close>, \<open>LogLevel\<close> and
  \<open>Input\<close>.
\<close>

record Controller =
  path :: string
  LogLevel :: int
  Input :: ControllerInput

definition zeroInput :: ControllerInput where
  "zeroInput =
     \<lparr>Dpad_Up = 0, Dpad_Down = 0, Dpad_Left = 0, Dpad_Right = 0,
      Button_A = 0, Button_B = 0, Button_X = 0, Button_Y = 0, Button_L = 0, Button_R = 0,
      Button_ZL = 0, Button_ZR = 0, Button_Minus = 0, Button_Plus = 0, Button_Home = 0,
      Stick_Left_X = 0, Stick_Left_Y = 0, Stick_Left_Press = 0,
      Stick_Right_X = 0, Stick_Right_Y = 0, Stick_Right_Press = 0\<rparr>"

text \<open>
  Modelled from the spec: \<open>nscon.NewController(path)\<close> of the imported package; a Go
  struct starts with every field zero.
\<close>

definition NewController :: "string \<Rightarrow> Controller" where
  "NewController p = \<lparr>path = p, LogLevel = 0, Input = zeroInput\<rparr>"

section \<open>Level mode: \<open>setInput\<close> and \<open>handleInputEvent\<close>\<close>

text \<open>
  \<open>setInput(input *uint8, pressed bool)\<close> of \<open>multi_controller.go\<close> (lines 263-269) and of
  the single-controller program (\<open>src/unnamed/part_000\<close>, lines 30-36). The pointer is an
  in-out parameter: the function takes the old value of the field and returns the new.
\<close>

definition setInput :: "uint8 \<Rightarrow> bool \<Rightarrow> uint8" where
  "setInput input pressed = (if pressed then 1 else 0)"

definition EV_SYN :: uint16 where "EV_SYN = 0"
definition EV_KEY :: uint16 where "EV_KEY = 1"
definition EV_ABS :: uint16 where "EV_ABS = 3"

text \<open>
  The normalisation block of \<open>handleInputEvent\<close> in the single-controller program
  (\<open>src/unnamed/part_000\<close>, lines 250-283; \<open>no_held_buttons.go\<close>, lines 284-317, is the
  same text): the five-branch range inference, the clamp, the deadzone. The result is
  the final value of the local variable \<open>normalizedValue\<close>.
\<close>

definition normalizedValue :: "int32 \<Rightarrow> float64" where
  "normalizedValue val =
     (let v = sint val;
          n0 = (if v \<ge> 0 \<and> v \<le> 255 then (real_of_int v - 127.5) / 127.5
                else if v \<ge> - 32768 \<and> v \<le> 32767 then real_of_int v / 32767.0
                else if v \<ge> 0 \<and> v \<le> 4095 then (real_of_int v - 2048.0) / 2048.0
                else if v \<ge> 0 \<and> v \<le> 1023 then (real_of_int v - 512.0) / 512.0
                else (real_of_int v - 127.5) / 127.5);
          n1 = (if n0 > 1.0 then 1.0 else if n0 < - 1.0 then - 1.0 else n0)
      in if n1 > - 0.05 \<and> n1 < 0.05 then 0.0 else n1)"

text \<open>
  The same block of \<open>ControllerManager.handleInputEvent\<close> in \<open>multi_controller.go\<close>
  (lines 205-226): three branches only.
\<close>

definition cm_normalizedValue :: "int32 \<Rightarrow> float64" where
  "cm_normalizedValue val =
     (let v = sint val;
          n0 = (if v \<ge> 0 \<and> v \<le> 255 then (real_of_int v - 127.5) / 127.5
                else if v \<ge> - 32768 \<and> v \<le> 32767 then real_of_int v / 32767.0
                else (real_of_int v - 127.5) / 127.5);
          n1 = (if n0 > 1.0 then 1.0 else if n0 < - 1.0 then - 1.0 else n0)
      in if n1 > - 0.05 \<and> n1 < 0.05 then 0.0 else n1)"

text \<open>
  The two \<open>switch code\<close> statements, shared by both programs (\<open>multi_controller.go\<close>
  lines 166-193 and 228-259; \<open>part_000\<close> lines 206-237 and 285-337, whose extra cases
  2, 5 and \<open>default\<close> only log). Each takes the controller and returns it updated.
\<close>

definition key_switch :: "uint16 \<Rightarrow> int32 \<Rightarrow> bool \<Rightarrow> Controller \<Rightarrow> Controller" where
  "key_switch code val pressed con =
     (let i = Input con in
      if code = 304 then con\<lparr>Input := i\<lparr>Button_A := setInput (Button_A i) pressed\<rparr>\<rparr>
      else if code = 305 then con\<lparr>Input := i\<lparr>Button_B := setInput (Button_B i) pressed\<rparr>\<rparr>
      else if code = 307 then con\<lparr>Input := i\<lparr>Button_Y := setInput (Button_Y i) pressed\<rparr>\<rparr>
      else if code = 308 then con\<lparr>Input := i\<lparr>Button_X := setInput (Button_X i) pressed\<rparr>\<rparr>
      else if code = 310 then con\<lparr>Input := i\<lparr>Button_L := setInput (Button_L i) pressed\<rparr>\<rparr>
      else if code = 311 then con\<lparr>Input := i\<lparr>Button_R := setInput (Button_R i) pressed\<rparr>\<rparr>
      else if code = 312 then con\<lparr>Input := i\<lparr>Button_ZL := setInput (Button_ZL i) pressed\<rparr>\<rparr>
      else if code = 313 then con\<lparr>Input := i\<lparr>Button_ZR := setInput (Button_ZR i) pressed\<rparr>\<rparr>
      else if code = 314 then con\<lparr>Input := i\<lparr>Button_Minus := setInput (Button_Minus i) pressed\<rparr>\<rparr>
      else if code = 315 then con\<lparr>Input := i\<lparr>Button_Plus := setInput (Button_Plus i) pressed\<rparr>\<rparr>
      else if code = 316 then con\<lparr>Input := i\<lparr>Button_Home := setInput (Button_Home i) pressed\<rparr>\<rparr>
      else if code = 317 then con\<lparr>Input := i\<lparr>Stick_Left_Press := ucast val\<rparr>\<rparr>
      else if code = 318 then con\<lparr>Input := i\<lparr>Stick_Right_Press := ucast val\<rparr>\<rparr>
      else con)"

definition abs_switch :: "uint16 \<Rightarrow> int32 \<Rightarrow> float64 \<Rightarrow> Controller \<Rightarrow> Controller" where
  "abs_switch code val nv con =
     (let i = Input con in
      if code = 0 then con\<lparr>Input := i\<lparr>Stick_Left_X := nv\<rparr>\<rparr>
      else if code = 1 then con\<lparr>Input := i\<lparr>Stick_Left_Y := - nv\<rparr>\<rparr>
      else if code = 3 then con\<lparr>Input := i\<lparr>Stick_Right_X := nv\<rparr>\<rparr>
      else if code = 4 then con\<lparr>Input := i\<lparr>Stick_Right_Y := - nv\<rparr>\<rparr>
      else if code = 16 then
        (if sint val < 0 then con\<lparr>Input := i\<lparr>Dpad_Left := 1, Dpad_Right := 0\<rparr>\<rparr>
         else if sint val > 0 then con\<lparr>Input := i\<lparr>Dpad_Left := 0, Dpad_Right := 1\<rparr>\<rparr>
         else con\<lparr>Input := i\<lparr>Dpad_Left := 0, Dpad_Right := 0\<rparr>\<rparr>)
      else if code = 17 then
        (if sint val < 0 then con\<lparr>Input := i\<lparr>Dpad_Up := 1, Dpad_Down := 0\<rparr>\<rparr>
         else if sint val > 0 then con\<lparr>Input := i\<lparr>Dpad_Up := 0, Dpad_Down := 1\<rparr>\<rparr>
         else con\<lparr>Input := i\<lparr>Dpad_Up := 0, Dpad_Down := 0\<rparr>\<rparr>)
      else con)"

text \<open>
  \<open>handleInputEvent(eventType, code, value, con, state)\<close> of the single-controller
  program (\<open>part_000\<close>, lines 195-344). The parameter \<open>state\<close> is neither read nor
  written by the function and is left out; logging has no effect on the controller.
\<close>

definition handleInputEvent :: "uint16 \<Rightarrow> uint16 \<Rightarrow> int32 \<Rightarrow> Controller \<Rightarrow> Controller" where
  "handleInputEvent eventType code val con =
     (if eventType = EV_KEY then key_switch code val (sint val > 0) con
      else if eventType = EV_ABS then abs_switch code val (normalizedValue val) con
      else con)"

text \<open>
  \<open>(cm *ControllerManager) handleInputEvent(playerNum, eventType, code, value, con)\<close> of
  \<open>multi_controller.go\<close> (lines 155-261). The receiver and \<open>playerNum\<close> are used for
  logging only and are left out.
\<close>

definition cm_handleInputEvent :: "uint16 \<Rightarrow> uint16 \<Rightarrow> int32 \<Rightarrow> Controller \<Rightarrow> Controller" where
  "cm_handleInputEvent eventType code val con =
     (if eventType = EV_KEY then key_switch code val (sint val > 0) con
      else if eventType = EV_ABS then abs_switch code val (cm_normalizedValue val) con
      else con)"

section \<open>The event decoder and the read loops\<close>

text \<open>
  \<open>file.Read(buffer)\<close> is Go's \<open>os.File.Read\<close>: it stores \<open>n \<le> len(buffer)\<close> bytes at the
  front of the buffer and returns \<open>n\<close> and an error. One call is described by the bytes
  the device delivers and by whether the call reports an error; the result is
  \<open>(n, err, buffer after the call)\<close>. The buffer is allocated once, before the loop, and
  is reused by every iteration.
\<close>

record file_read =
  rd_data :: "byte list"
  rd_err :: bool

definition eventSize :: nat where
  "eventSize = 24"

definition file_Read :: "file_read \<Rightarrow> byte list \<Rightarrow> nat \<times> bool \<times> byte list" where
  "file_Read r buffer =
     (let d = take (length buffer) (rd_data r)
      in (length d, rd_err r, d @ drop (length d) buffer))"

text \<open>
  The three parsing expressions of the loops (\<open>multi_controller.go\<close> lines 146-148,
  \<open>part_000\<close> lines 186-188), named after the variables they initialise.
\<close>

definition eventType_of :: "byte list \<Rightarrow> uint16" where
  "eventType_of buffer = ucast (buffer ! 16) OR push_bit 8 (ucast (buffer ! 17))"

definition code_of :: "byte list \<Rightarrow> uint16" where
  "code_of buffer = ucast (buffer ! 18) OR push_bit 8 (ucast (buffer ! 19))"

definition value_of :: "byte list \<Rightarrow> int32" where
  "value_of buffer =
      ((ucast (buffer ! 20) OR push_bit 8 (ucast (buffer ! 21)))
        OR push_bit 16 (ucast (buffer ! 22))) OR push_bit 24 (ucast (buffer ! 23))"

text \<open>
  The \<open>for\<close> loop of \<open>readInputEvents\<close> (\<open>part_000\<close>, lines 174-192). The loop has no exit:
  the function runs it over a finite prefix of the calls of \<open>file.Read\<close> and returns the
  buffer and the controller reached after them.
\<close>

fun readInputEvents_loop ::
  "file_read list \<Rightarrow> byte list \<Rightarrow> Controller \<Rightarrow> byte list \<times> Controller" where
  "readInputEvents_loop [] buffer con = (buffer, con)"
| "readInputEvents_loop (r # rest) buffer con =
     (case file_Read r buffer of (n, err, buffer') \<Rightarrow>
        if err then readInputEvents_loop rest buffer' con
        else if n \<noteq> eventSize then readInputEvents_loop rest buffer' con
        else readInputEvents_loop rest buffer'
               (handleInputEvent (eventType_of buffer') (code_of buffer') (value_of buffer') con))"

section \<open>The controller manager\<close>

text \<open>
  \<open>ControllerManager\<close> of \<open>multi_controller.go\<close> (lines 20-25). Every method holds
  \<open>mutex\<close> for its whole body, so a method is one atomic step on the two maps and the
  lock is not a field of the record.
\<close>

record ControllerManager =
  controllers :: "int \<rightharpoonup> Controller"
  devices :: "int \<rightharpoonup> string"
  logLevel :: int

definition NewControllerManager :: "int \<Rightarrow> ControllerManager" where
  "NewControllerManager lvl = \<lparr>controllers = Map.empty, devices = Map.empty, logLevel = lvl\<rparr>"

text \<open>
  The \<open>fmt.Errorf\<close> results of the two \<open>AddController\<close> methods, named as in section 7
  of the specification: "player number must be between 1-8", "controller already
  exists", "hidg device does not exist" and "input device does not exist" (returned
  only by the hub program), "failed to connect controller".
\<close>

datatype error = RangeError | DuplicateError | ValidationError | ConnectError

text \<open>
  \<open>AddController\<close> (lines 37-68). \<open>Connect\<close> is the imported \<open>controller.Connect()\<close>: the
  parameter tells whether it returns no error. The result is the returned error, the
  manager after the call, and the arguments of the reader goroutine the call started
  (\<open>go cm.readControllerInput(playerNum, inputDevice, controller)\<close>), if any.
\<close>

definition AddController ::
  "(Controller \<Rightarrow> bool) \<Rightarrow> ControllerManager \<Rightarrow> int \<Rightarrow> string \<Rightarrow> string
     \<Rightarrow> error option \<times> ControllerManager \<times> (int \<times> string \<times> Controller) option" where
  "AddController Connect cm playerNum hidgDevice inputDevice =
     (if playerNum < 1 \<or> playerNum > 8 then (Some RangeError, cm, None)
      else if controllers cm playerNum \<noteq> None then (Some DuplicateError, cm, None)
      else
        let controller = (NewController hidgDevice)\<lparr>LogLevel := logLevel cm\<rparr>
        in if \<not> Connect controller then (Some ConnectError, cm, None)
           else (None,
                 cm\<lparr>controllers := (controllers cm)(playerNum \<mapsto> controller),
                    devices := (devices cm)(playerNum \<mapsto> inputDevice)\<rparr>,
                 Some (playerNum, inputDevice, controller)))"

text \<open>
  \<open>Close\<close> (lines 84-95): calls \<open>controller.Close()\<close> on every registered controller
  (Go ranges over the map in no fixed order) and replaces both maps by empty ones. The
  result is the manager after the call and the set of controllers that were closed.
\<close>

definition Close :: "ControllerManager \<Rightarrow> ControllerManager \<times> Controller set" where
  "Close cm =
     (cm\<lparr>controllers := Map.empty, devices := Map.empty\<rparr>, ran (controllers cm))"

text \<open>
  \<open>readControllerInput\<close> (lines 109-153). The reader runs concurrently with the
  manager's methods: each iteration of its loop first looks the player up in the
  registry as it is at that moment, so an iteration is given the manager it sees and
  the call of \<open>file.Read\<close> it makes. \<open>Reading\<close> says that the loop is still running after
  the given iterations. The 100 ms sleep after a read error changes no state.
\<close>

datatype reader_status = OpenFailed | Stopped | Reading

fun readControllerInput_loop ::
  "int \<Rightarrow> (ControllerManager \<times> file_read) list \<Rightarrow> byte list \<Rightarrow> Controller
     \<Rightarrow> reader_status \<times> Controller" where
  "readControllerInput_loop playerNum [] buffer con = (Reading, con)"
| "readControllerInput_loop playerNum ((cm, r) # rest) buffer con =
     (if controllers cm playerNum = None then (Stopped, con)
      else
        case file_Read r buffer of (n, err, buffer') \<Rightarrow>
          if err then readControllerInput_loop playerNum rest buffer' con
          else if n \<noteq> eventSize then readControllerInput_loop playerNum rest buffer' con
          else readControllerInput_loop playerNum rest buffer'
                 (cm_handleInputEvent (eventType_of buffer') (code_of buffer')
                    (value_of buffer') con))"

text \<open>
  \<open>Open\<close> is \<open>os.Open\<close>: the parameter tells whether the path can be opened. When it
  cannot, the function logs and returns (lines 110-114).
\<close>

definition readControllerInput ::
  "(string \<Rightarrow> bool) \<Rightarrow> int \<Rightarrow> string \<Rightarrow> Controller \<Rightarrow> (ControllerManager \<times> file_read) list
     \<Rightarrow> reader_status \<times> Controller" where
  "readControllerInput Open playerNum devicePath con iterations =
     (if \<not> Open devicePath then (OpenFailed, con)
      else readControllerInput_loop playerNum iterations (replicate eventSize 0) con)"

section \<open>The controller manager of the hub program\<close>

text \<open>
  The Go program that follows the shell script in \<open>src/setup_hub_emulation.sh\<close> (from
  line 266) has a \<open>ControllerManager\<close> of its own (lines 285-292), with the endpoint
  paths and a \<open>running\<close> flag beside the two maps.
\<close>

record HubControllerManager =
  hub_controllers :: "int \<rightharpoonup> Controller"
  hub_devices :: "int \<rightharpoonup> string"
  hub_hidgDevices :: "int \<rightharpoonup> string"
  hub_logLevel :: int
  hub_running :: bool

definition hub_NewControllerManager :: "int \<Rightarrow> HubControllerManager" where
  "hub_NewControllerManager lvl =
     \<lparr>hub_controllers = Map.empty, hub_devices = Map.empty, hub_hidgDevices = Map.empty,
      hub_logLevel = lvl, hub_running = True\<rparr>"

text \<open>
  Its \<open>AddController\<close> (lines 305-348). \<open>Exists\<close> is the file system as \<open>os.Stat\<close> sees it:
  the parameter tells whether a path exists, so that \<open>os.IsNotExist(err)\<close> is its
  negation. Both paths are checked after the range and duplicate checks and before the
  controller is created.
\<close>

definition hub_AddController ::
  "(string \<Rightarrow> bool) \<Rightarrow> (Controller \<Rightarrow> bool) \<Rightarrow> HubControllerManager \<Rightarrow> int \<Rightarrow> string
     \<Rightarrow> string \<Rightarrow> error option \<times> HubControllerManager \<times> (int \<times> string \<times> Controller) option"
  where
  "hub_AddController Exists Connect cm playerNum hidgDevice inputDevice =
     (if playerNum < 1 \<or> playerNum > 8 then (Some RangeError, cm, None)
      else if hub_controllers cm playerNum \<noteq> None then (Some DuplicateError, cm, None)
      else if \<not> Exists hidgDevice then (Some ValidationError, cm, None)
      else if \<not> Exists inputDevice then (Some ValidationError, cm, None)
      else
        let controller = (NewController hidgDevice)\<lparr>LogLevel := hub_logLevel cm\<rparr>
        in if \<not> Connect controller then (Some ConnectError, cm, None)
           else (None,
                 cm\<lparr>hub_controllers := (hub_controllers cm)(playerNum \<mapsto> controller),
                    hub_devices := (hub_devices cm)(playerNum \<mapsto> inputDevice),
                    hub_hidgDevices := (hub_hidgDevices cm)(playerNum \<mapsto> hidgDevice)\<rparr>,
                 Some (playerNum, inputDevice, controller)))"

section \<open>The specification's normaliser\<close>

text \<open>
  Section 4.2 of the specification in its own words: a list of candidate ranges in
  precedence order, each with a centre and a scale; the first range that contains the
  raw value gives the rule, the 8-bit rule is the fallback; the result of
  \<open>(value - center) / center_scale\<close> is clamped to \<open>[-1, 1]\<close> and a magnitude below 0.05
  snaps to 0.
\<close>

definition clamp_unit :: "real \<Rightarrow> real" where
  "clamp_unit x = max (- 1) (min 1 x)"

definition deadzone :: "real \<Rightarrow> real" where
  "deadzone x = (if \<bar>x\<bar> < 0.05 then 0 else x)"

record range_rule =
  lo :: int
  hi :: int
  center :: real
  center_scale :: real

definition rule_8bit :: range_rule where
  "rule_8bit = \<lparr>lo = 0, hi = 255, center = 127.5, center_scale = 127.5\<rparr>"

definition rule_16bit :: range_rule where
  "rule_16bit = \<lparr>lo = - 32768, hi = 32767, center = 0, center_scale = 32767.0\<rparr>"

definition rule_12bit :: range_rule where
  "rule_12bit = \<lparr>lo = 0, hi = 4095, center = 2048.0, center_scale = 2048.0\<rparr>"

definition rule_10bit :: range_rule where
  "rule_10bit = \<lparr>lo = 0, hi = 1023, center = 512.0, center_scale = 512.0\<rparr>"

definition precedence :: "range_rule list" where
  "precedence = [rule_8bit, rule_16bit, rule_12bit, rule_10bit]"

definition in_range :: "int \<Rightarrow> range_rule \<Rightarrow> bool" where
  "in_range v r = (lo r \<le> v \<and> v \<le> hi r)"

definition apply_rule :: "range_rule \<Rightarrow> int \<Rightarrow> real" where
  "apply_rule r v = deadzone (clamp_unit ((real_of_int v - center r) / center_scale r))"

definition spec_normalize :: "int \<Rightarrow> real" where
  "spec_normalize v =
     (case find (in_range v) precedence of
        Some r \<Rightarrow> apply_rule r v
      | None \<Rightarrow> apply_rule rule_8bit v)"

section \<open>The specification's state mapper\<close>

text \<open>
  The fields of the canonical state by name, the value a field holds, and the fields in
  which two controllers differ.
\<close>

datatype field =
    F_Dpad_Up | F_Dpad_Down | F_Dpad_Left | F_Dpad_Right
  | F_Button_A | F_Button_B | F_Button_X | F_Button_Y | F_Button_L | F_Button_R
  | F_Button_ZL | F_Button_ZR | F_Button_Minus | F_Button_Plus | F_Button_Home
  | F_Stick_Left_X | F_Stick_Left_Y | F_Stick_Left_Press
  | F_Stick_Right_X | F_Stick_Right_Y | F_Stick_Right_Press

fun get_field :: "field \<Rightarrow> ControllerInput \<Rightarrow> uint8 + float64" where
  "get_field F_Dpad_Up i = Inl (Dpad_Up i)"
| "get_field F_Dpad_Down i = Inl (Dpad_Down i)"
| "get_field F_Dpad_Left i = Inl (Dpad_Left i)"
| "get_field F_Dpad_Right i = Inl (Dpad_Right i)"
| "get_field F_Button_A i = Inl (Button_A i)"
| "get_field F_Button_B i = Inl (Button_B i)"
| "get_field F_Button_X i = Inl (Button_X i)"
| "get_field F_Button_Y i = Inl (Button_Y i)"
| "get_field F_Button_L i = Inl (Button_L i)"
| "get_field F_Button_R i = Inl (Button_R i)"
| "get_field F_Button_ZL i = Inl (Button_ZL i)"
| "get_field F_Button_ZR i = Inl (Button_ZR i)"
| "get_field F_Button_Minus i = Inl (Button_Minus i)"
| "get_field F_Button_Plus i = Inl (Button_Plus i)"
| "get_field F_Button_Home i = Inl (Button_Home i)"
| "get_field F_Stick_Left_X i = Inr (Stick_Left_X i)"
| "get_field F_Stick_Left_Y i = Inr (Stick_Left_Y i)"
| "get_field F_Stick_Left_Press i = Inl (Stick_Left_Press i)"
| "get_field F_Stick_Right_X i = Inr (Stick_Right_X i)"
| "get_field F_Stick_Right_Y i = Inr (Stick_Right_Y i)"
| "get_field F_Stick_Right_Press i = Inl (Stick_Right_Press i)"

definition all_fields :: "field list" where
  "all_fields =
     [F_Dpad_Up, F_Dpad_Down, F_Dpad_Left, F_Dpad_Right,
      F_Button_A, F_Button_B, F_Button_X, F_Button_Y, F_Button_L, F_Button_R,
      F_Button_ZL, F_Button_ZR, F_Button_Minus, F_Button_Plus, F_Button_Home,
      F_Stick_Left_X, F_Stick_Left_Y, F_Stick_Left_Press,
      F_Stick_Right_X, F_Stick_Right_Y, F_Stick_Right_Press]"

definition changed_fields :: "Controller \<Rightarrow> Controller \<Rightarrow> field list" where
  "changed_fields con con' =
     filter (\<lambda>f. get_field f (Input con) \<noteq> get_field f (Input con')) all_fields"

text \<open>
  Section 4.3 of the specification in its own words: the fixed mapping from an event
  (type 1 is digital, type 3 is analog) and its evdev code to the fields of the state
  it is routed to. A d-pad axis is routed to its two directions; a code outside the
  mapping is routed to no field.
\<close>

definition mapped_fields :: "uint16 \<Rightarrow> uint16 \<Rightarrow> field list" where
  "mapped_fields eventType code =
     (if eventType = 1 then
        (if code = 304 then [F_Button_A]
         else if code = 305 then [F_Button_B]
         else if code = 307 then [F_Button_Y]
         else if code = 308 then [F_Button_X]
         else if code = 310 then [F_Button_L]
         else if code = 311 then [F_Button_R]
         else if code = 312 then [F_Button_ZL]
         else if code = 313 then [F_Button_ZR]
         else if code = 314 then [F_Button_Minus]
         else if code = 315 then [F_Button_Plus]
         else if code = 316 then [F_Button_Home]
         else if code = 317 then [F_Stick_Left_Press]
         else if code = 318 then [F_Stick_Right_Press]
         else [])
      else if eventType = 3 then
        (if code = 0 then [F_Stick_Left_X]
         else if code = 1 then [F_Stick_Left_Y]
         else if code = 3 then [F_Stick_Right_X]
         else if code = 4 then [F_Stick_Right_Y]
         else if code = 16 then [F_Dpad_Left, F_Dpad_Right]
         else if code = 17 then [F_Dpad_Up, F_Dpad_Down]
         else [])
      else [])"


text \<open>
  The value section 4.3 gives a field an event is routed to, in level mode: a digital
  field holds 1 for a press (value above 0) and 0 for a release; a stick axis holds the
  normalised value, \<open>Y\<close> with its sign inverted; of the two directions of a d-pad axis
  the first (\<open>Left\<close>, \<open>Up\<close>) holds 1 for a negative value and the second (\<open>Right\<close>, \<open>Down\<close>)
  for a positive one.
\<close>

fun spec_value :: "field \<Rightarrow> int32 \<Rightarrow> uint8 + float64" where
  "spec_value F_Dpad_Up val = Inl (if sint val < 0 then 1 else 0)"
| "spec_value F_Dpad_Down val = Inl (if sint val > 0 then 1 else 0)"
| "spec_value F_Dpad_Left val = Inl (if sint val < 0 then 1 else 0)"
| "spec_value F_Dpad_Right val = Inl (if sint val > 0 then 1 else 0)"
| "spec_value F_Stick_Left_X val = Inr (spec_normalize (sint val))"
| "spec_value F_Stick_Left_Y val = Inr (- spec_normalize (sint val))"
| "spec_value F_Stick_Right_X val = Inr (spec_normalize (sint val))"
| "spec_value F_Stick_Right_Y val = Inr (- spec_normalize (sint val))"
| "spec_value f val = Inl (if sint val > 0 then 1 else 0)"

text \<open>
  The invariant of section 3 of the specification: a digital field is 0 or 1, an analog
  field lies in \<open>[-1, 1]\<close>.
\<close>

definition digital :: "uint8 \<Rightarrow> bool" where
  "digital b = (b = 0 \<or> b = 1)"

definition analog :: "float64 \<Rightarrow> bool" where
  "analog x = (- 1 \<le> x \<and> x \<le> 1)"

definition canonical :: "ControllerInput \<Rightarrow> bool" where
  "canonical i =
     (digital (Dpad_Up i) \<and> digital (Dpad_Down i) \<and> digital (Dpad_Left i) \<and>
      digital (Dpad_Right i) \<and>
      digital (Button_A i) \<and> digital (Button_B i) \<and> digital (Button_X i) \<and>
      digital (Button_Y i) \<and> digital (Button_L i) \<and> digital (Button_R i) \<and>
      digital (Button_ZL i) \<and> digital (Button_ZR i) \<and> digital (Button_Minus i) \<and>
      digital (Button_Plus i) \<and> digital (Button_Home i) \<and>
      analog (Stick_Left_X i) \<and> analog (Stick_Left_Y i) \<and> digital (Stick_Left_Press i) \<and>
      analog (Stick_Right_X i) \<and> analog (Stick_Right_Y i) \<and> digital (Stick_Right_Press i))"

section \<open>The specification's decoder\<close>

text \<open>
  Section 4.1 of the specification in its own words: a 2-byte little-endian unsigned
  integer, and a 4-byte little-endian integer read as two's complement.
\<close>

definition le_u16 :: "byte \<Rightarrow> byte \<Rightarrow> int" where
  "le_u16 b0 b1 = uint b0 + 2 ^ 8 * uint b1"

definition le_s32 :: "byte \<Rightarrow> byte \<Rightarrow> byte \<Rightarrow> byte \<Rightarrow> int" where
  "le_s32 b0 b1 b2 b3 =
     (let u = uint b0 + 2 ^ 8 * uint b1 + 2 ^ 16 * uint b2 + 2 ^ 24 * uint b3
      in if u < 2 ^ 31 then u else u - 2 ^ 32)"

section \<open>Pulse mode: \<open>setInput\<close> and \<open>handleInputEvent\<close> of \<open>no_held_buttons.go\<close>\<close>

text \<open>
  In \<open>no_held_buttons.go\<close>, \<open>setInput(input *uint8)\<close> (lines 31-36) stores 1 through the
  pointer and calls \<open>time.AfterFunc(100*time.Millisecond, ...)\<close> with a function that
  stores 0 through the same pointer. The state of the program is the controller, the
  time in milliseconds, and the timers that have been started and have not fired, each
  with its deadline and the field its function writes. A pointer to a \<open>uint8\<close> field is
  the name of the field; \<open>put_digital\<close> is the store through it.
\<close>

fun put_digital :: "field \<Rightarrow> uint8 \<Rightarrow> ControllerInput \<Rightarrow> ControllerInput" where
  "put_digital F_Dpad_Up v i = i\<lparr>Dpad_Up := v\<rparr>"
| "put_digital F_Dpad_Down v i = i\<lparr>Dpad_Down := v\<rparr>"
| "put_digital F_Dpad_Left v i = i\<lparr>Dpad_Left := v\<rparr>"
| "put_digital F_Dpad_Right v i = i\<lparr>Dpad_Right := v\<rparr>"
| "put_digital F_Button_A v i = i\<lparr>Button_A := v\<rparr>"
| "put_digital F_Button_B v i = i\<lparr>Button_B := v\<rparr>"
| "put_digital F_Button_X v i = i\<lparr>Button_X := v\<rparr>"
| "put_digital F_Button_Y v i = i\<lparr>Button_Y := v\<rparr>"
| "put_digital F_Button_L v i = i\<lparr>Button_L := v\<rparr>"
| "put_digital F_Button_R v i = i\<lparr>Button_R := v\<rparr>"
| "put_digital F_Button_ZL v i = i\<lparr>Button_ZL := v\<rparr>"
| "put_digital F_Button_ZR v i = i\<lparr>Button_ZR := v\<rparr>"
| "put_digital F_Button_Minus v i = i\<lparr>Button_Minus := v\<rparr>"
| "put_digital F_Button_Plus v i = i\<lparr>Button_Plus := v\<rparr>"
| "put_digital F_Button_Home v i = i\<lparr>Button_Home := v\<rparr>"
| "put_digital F_Stick_Left_Press v i = i\<lparr>Stick_Left_Press := v\<rparr>"
| "put_digital F_Stick_Right_Press v i = i\<lparr>Stick_Right_Press := v\<rparr>"
| "put_digital f v i = i"

record pulse_world =
  pw_con :: Controller
  pw_now :: nat
  pw_timers :: "(nat \<times> field) list"

definition pulse_setInput :: "field \<Rightarrow> pulse_world \<Rightarrow> pulse_world" where
  "pulse_setInput input w =
     w\<lparr>pw_con := (pw_con w)\<lparr>Input := put_digital input 1 (Input (pw_con w))\<rparr>,
       pw_timers := pw_timers w @ [(pw_now w + 100, input)]\<rparr>"

text \<open>
  The passing of time: the clock moves to \<open>t\<close> and every timer whose deadline has been
  reached runs its function, which stores 0 in its field, and is gone. A timer fires as
  soon as its deadline is reached; all the functions store the same value, so the order
  in which due timers run does not matter.
\<close>

definition elapse :: "nat \<Rightarrow> pulse_world \<Rightarrow> pulse_world" where
  "elapse t w =
     w\<lparr>pw_con := (pw_con w)\<lparr>Input :=
          fold (\<lambda>(d, f). put_digital f 0) (filter (\<lambda>(d, f). d \<le> t) (pw_timers w))
            (Input (pw_con w))\<rparr>,
       pw_now := max (pw_now w) t,
       pw_timers := filter (\<lambda>(d, f). \<not> d \<le> t) (pw_timers w)\<rparr>"

text \<open>
  \<open>handleInputEvent\<close> of \<open>no_held_buttons.go\<close> (lines 215-368). A button is pulsed when
  the event is a press; the two stick presses are stored as \<open>uint8(value)\<close> and start no
  timer (lines 271-274); the stick axes are stored as in the other programs, with the
  five-branch normaliser; a d-pad axis pulses one direction by the sign of the value
  and does nothing for 0. Logging and the unused parameter \<open>state\<close> are left out.
\<close>

definition pulse_handleInputEvent ::
  "uint16 \<Rightarrow> uint16 \<Rightarrow> int32 \<Rightarrow> pulse_world \<Rightarrow> pulse_world" where
  "pulse_handleInputEvent eventType code val w =
     (let con = pw_con w; i = Input con in
      if eventType = EV_KEY then
        (let pressed = (sint val > 0) in
         if code = 304 then (if pressed then pulse_setInput F_Button_A w else w)
         else if code = 305 then (if pressed then pulse_setInput F_Button_B w else w)
         else if code = 307 then (if pressed then pulse_setInput F_Button_Y w else w)
         else if code = 308 then (if pressed then pulse_setInput F_Button_X w else w)
         else if code = 310 then (if pressed then pulse_setInput F_Button_L w else w)
         else if code = 311 then (if pressed then pulse_setInput F_Button_R w else w)
         else if code = 312 then (if pressed then pulse_setInput F_Button_ZL w else w)
         else if code = 313 then (if pressed then pulse_setInput F_Button_ZR w else w)
         else if code = 314 then (if pressed then pulse_setInput F_Button_Minus w else w)
         else if code = 315 then (if pressed then pulse_setInput F_Button_Plus w else w)
         else if code = 316 then (if pressed then pulse_setInput F_Button_Home w else w)
         else if code = 317 then w\<lparr>pw_con := con\<lparr>Input := i\<lparr>Stick_Left_Press := ucast val\<rparr>\<rparr>\<rparr>
         else if code = 318 then w\<lparr>pw_con := con\<lparr>Input := i\<lparr>Stick_Right_Press := ucast val\<rparr>\<rparr>\<rparr>
         else w)
      else if eventType = EV_ABS then
        (let nv = normalizedValue val in
         if code = 0 then w\<lparr>pw_con := con\<lparr>Input := i\<lparr>Stick_Left_X := nv\<rparr>\<rparr>\<rparr>
         else if code = 1 then w\<lparr>pw_con := con\<lparr>Input := i\<lparr>Stick_Left_Y := - nv\<rparr>\<rparr>\<rparr>
         else if code = 3 then w\<lparr>pw_con := con\<lparr>Input := i\<lparr>Stick_Right_X := nv\<rparr>\<rparr>\<rparr>
         else if code = 4 then w\<lparr>pw_con := con\<lparr>Input := i\<lparr>Stick_Right_Y := - nv\<rparr>\<rparr>\<rparr>
         else if code = 16 then
           (if sint val < 0 then pulse_setInput F_Dpad_Left w
            else if sint val > 0 then pulse_setInput F_Dpad_Right w
            else w)
         else if code = 17 then
           (if sint val < 0 then pulse_setInput F_Dpad_Up w
            else if sint val > 0 then pulse_setInput F_Dpad_Down w
            else w)
         else w)
      else w)"

text \<open>
  The field an event pulses in this program, if any: one of the eleven buttons for a
  key event with a value above 0, one d-pad direction for a d-pad axis event with a
  value other than 0.
\<close>

definition pulsed_field :: "uint16 \<Rightarrow> uint16 \<Rightarrow> int32 \<Rightarrow> field option" where
  "pulsed_field eventType code val =
     (if eventType = 1 \<and> sint val > 0 then
        (if code = 304 then Some F_Button_A
         else if code = 305 then Some F_Button_B
         else if code = 307 then Some F_Button_Y
         else if code = 308 then Some F_Button_X
         else if code = 310 then Some F_Button_L
         else if code = 311 then Some F_Button_R
         else if code = 312 then Some F_Button_ZL
         else if code = 313 then Some F_Button_ZR
         else if code = 314 then Some F_Button_Minus
         else if code = 315 then Some F_Button_Plus
         else if code = 316 then Some F_Button_Home
         else None)
      else if eventType = 3 \<and> code = 16 then
        (if sint val < 0 then Some F_Dpad_Left
         else if sint val > 0 then Some F_Dpad_Right
         else None)
      else if eventType = 3 \<and> code = 17 then
        (if sint val < 0 then Some F_Dpad_Up
         else if sint val > 0 then Some F_Dpad_Down
         else None)
      else None)"

text \<open>The fields that section 3 of the specification calls digital.\<close>

definition digital_fields :: "field list" where
  "digital_fields =
     [F_Dpad_Up, F_Dpad_Down, F_Dpad_Left, F_Dpad_Right,
      F_Button_A, F_Button_B, F_Button_X, F_Button_Y, F_Button_L, F_Button_R,
      F_Button_ZL, F_Button_ZR, F_Button_Minus, F_Button_Plus, F_Button_Home,
      F_Stick_Left_Press, F_Stick_Right_Press]"

section \<open>Example inputs\<close>

text \<open>
  Two 24-byte records as the kernel writes them, after 16 bytes of timestamp: a press of
  button A (type 1, code 304, value 1) and a d-pad move to the left (type 3, code 16,
  value -1); a read that delivers three bytes, and a read that delivers the first
  record.
\<close>

definition press_A_record :: "byte list" where
  "press_A_record =
     [0, 0, 0, 0, 0, 0, 0, 0, 0, 0, 0, 0, 0, 0, 0, 0, 1, 0, 48, 1, 1, 0, 0, 0]"

definition dpad_left_record :: "byte list" where
  "dpad_left_record =
     [0, 0, 0, 0, 0, 0, 0, 0, 0, 0, 0, 0, 0, 0, 0, 0, 3, 0, 16, 0, 255, 255, 255, 255]"

definition short_read :: file_read where
  "short_read = \<lparr>rd_data = [1, 2, 3], rd_err = False\<rparr>"

definition press_A_read :: file_read where
  "press_A_read = \<lparr>rd_data = press_A_record, rd_err = False\<rparr>"

text \<open>
  An endpoint on which \<open>Connect\<close> succeeds, one on which it fails, and a file system in
  which \<open>/dev/hidg0\<close> is the only path that exists and can be opened.
\<close>

definition connect_always :: "Controller \<Rightarrow> bool" where
  "connect_always c = True"

definition connect_never :: "Controller \<Rightarrow> bool" where
  "connect_never c = False"

definition only_hidg0 :: "string \<Rightarrow> bool" where
  "only_hidg0 p = (p = ''/dev/hidg0'')"

text \<open>The pulse-mode program at time 0, with a fresh controller and no timer.\<close>

definition pulse_start :: pulse_world where
  "pulse_start = \<lparr>pw_con = NewController ''/dev/hidg0'', pw_now = 0, pw_timers = []\<rparr>"

section \<open>The axis normaliser\<close>

lemma clamp_deadzone_code:
  fixes n0 :: real
  shows "(let n1 = (if n0 > 1.0 then 1.0 else if n0 < - 1.0 then - 1.0 else n0)
          in if n1 > - 0.05 \<and> n1 < 0.05 then 0.0 else n1) = deadzone (clamp_unit n0)"
  by (auto simp: Let_def deadzone_def clamp_unit_def max_def min_def abs_if)

lemma unreachable_branches:
  fixes v :: int and a b c d :: 'a
  shows "(if v \<ge> 0 \<and> v \<le> 255 then a
          else if v \<ge> - 32768 \<and> v \<le> 32767 then b
          else if v \<ge> 0 \<and> v \<le> 4095 then c
          else if v \<ge> 0 \<and> v \<le> 1023 then d
          else a) =
         (if v \<ge> 0 \<and> v \<le> 255 then a
          else if v \<ge> - 32768 \<and> v \<le> 32767 then b
          else a)"
  by auto

lemma cm_normalizedValue_post:
  "cm_normalizedValue val =
     deadzone (clamp_unit
       (if sint val \<ge> 0 \<and> sint val \<le> 255 then (real_of_int (sint val) - 127.5) / 127.5
        else if sint val \<ge> - 32768 \<and> sint val \<le> 32767 then real_of_int (sint val) / 32767.0
        else (real_of_int (sint val) - 127.5) / 127.5))"
  unfolding cm_normalizedValue_def Let_def clamp_deadzone_code[unfolded Let_def] ..

lemma normalizedValue_cm: "normalizedValue val = cm_normalizedValue val"
  unfolding normalizedValue_def cm_normalizedValue_def unreachable_branches ..

text \<open>
  C10: the five-branch range inference of the single-controller program and the
  three-branch one of \<open>multi_controller.go\<close> are the same function of the \<open>int32\<close> raw
  value: a value in 0..4095 or 0..1023 is already taken by the 8-bit or the 16-bit
  branch, so the 12-bit and 10-bit branches are never reached. The two event handlers
  therefore agree on every event.
\<close>

theorem five_branch_eq_three_branch:
  "normalizedValue val = cm_normalizedValue val \<and>
   handleInputEvent eventType code val con = cm_handleInputEvent eventType code val con"
proof
  show "normalizedValue val = cm_normalizedValue val"
    by (rule normalizedValue_cm)
  show "handleInputEvent eventType code val con = cm_handleInputEvent eventType code val con"
    unfolding handleInputEvent_def cm_handleInputEvent_def normalizedValue_cm ..
qed

text \<open>
  C2: for a raw value in 0..255 both normalisers return \<open>(v - 127.5) / 127.5\<close>, clamped
  to \<open>[-1, 1]\<close>, with a magnitude below 0.05 snapped to 0; for a value of the 16-bit
  signed range outside 0..255 they return \<open>v / 32767.0\<close>, clamped and snapped the same
  way.
\<close>

theorem normalizer_ranges:
  "(0 \<le> sint val \<and> sint val \<le> 255 \<longrightarrow>
      normalizedValue val = deadzone (clamp_unit ((real_of_int (sint val) - 127.5) / 127.5)) \<and>
      cm_normalizedValue val = deadzone (clamp_unit ((real_of_int (sint val) - 127.5) / 127.5))) \<and>
   (- 32768 \<le> sint val \<and> sint val \<le> 32767 \<and> \<not> (0 \<le> sint val \<and> sint val \<le> 255) \<longrightarrow>
      normalizedValue val = deadzone (clamp_unit (real_of_int (sint val) / 32767.0)) \<and>
      cm_normalizedValue val = deadzone (clamp_unit (real_of_int (sint val) / 32767.0)))"
proof (intro conjI impI)
  assume "0 \<le> sint val \<and> sint val \<le> 255"
  then show c: "cm_normalizedValue val =
      deadzone (clamp_unit ((real_of_int (sint val) - 127.5) / 127.5))"
    unfolding cm_normalizedValue_post by simp
  then show "normalizedValue val =
      deadzone (clamp_unit ((real_of_int (sint val) - 127.5) / 127.5))"
    by (simp only: normalizedValue_cm)
next
  assume r: "- 32768 \<le> sint val \<and> sint val \<le> 32767 \<and> \<not> (0 \<le> sint val \<and> sint val \<le> 255)"
  then have a: "\<not> (0 \<le> sint val \<and> sint val \<le> 255)"
    and b: "- 32768 \<le> sint val \<and> sint val \<le> 32767"
    by blast+
  show c: "cm_normalizedValue val = deadzone (clamp_unit (real_of_int (sint val) / 32767.0))"
    unfolding cm_normalizedValue_post using a b by auto
  then show "normalizedValue val = deadzone (clamp_unit (real_of_int (sint val) / 32767.0))"
    by (simp only: normalizedValue_cm)
qed

theorem normalizer_ranges_witness:
  "normalizedValue 200 = 29 / 51 \<and> cm_normalizedValue 200 = 29 / 51 \<and>
   normalizedValue 130 = 0 \<and> cm_normalizedValue 255 = 1 \<and>
   normalizedValue (- 32768) = - 1 \<and> cm_normalizedValue 20000 = 20000 / 32767 \<and>
   normalizedValue 1638 = 0"
  using normalizer_ranges [of 200] normalizer_ranges [of 130] normalizer_ranges [of 255]
    normalizer_ranges [of "- 32768"] normalizer_ranges [of 20000] normalizer_ranges [of 1638]
  by (simp add: deadzone_def clamp_unit_def)

lemma find_precedence:
  "find (in_range v) precedence =
     (if 0 \<le> v \<and> v \<le> 255 then Some rule_8bit
      else if - 32768 \<le> v \<and> v \<le> 32767 then Some rule_16bit
      else if 0 \<le> v \<and> v \<le> 4095 then Some rule_12bit
      else if 0 \<le> v \<and> v \<le> 1023 then Some rule_10bit
      else None)"
  by (simp add: precedence_def in_range_def rule_8bit_def rule_16bit_def rule_12bit_def
      rule_10bit_def)

text \<open>
  C3: the normaliser of the single-controller program is the specification's: the rule
  applied to a raw value is the one of the first range, in the order 8-bit, 16-bit,
  12-bit, 10-bit, that contains the value, and the 8-bit rule when none does.
\<close>

theorem normalizer_precedence: "normalizedValue val = spec_normalize (sint val)"
proof -
  have "spec_normalize (sint val) = deadzone (clamp_unit
       (if sint val \<ge> 0 \<and> sint val \<le> 255 then (real_of_int (sint val) - 127.5) / 127.5
        else if sint val \<ge> - 32768 \<and> sint val \<le> 32767 then real_of_int (sint val) / 32767.0
        else if sint val \<ge> 0 \<and> sint val \<le> 4095 then (real_of_int (sint val) - 2048.0) / 2048.0
        else if sint val \<ge> 0 \<and> sint val \<le> 1023 then (real_of_int (sint val) - 512.0) / 512.0
        else (real_of_int (sint val) - 127.5) / 127.5))"
    unfolding spec_normalize_def find_precedence apply_rule_def
    by (simp add: rule_8bit_def rule_16bit_def rule_12bit_def rule_10bit_def)
  also have "\<dots> = normalizedValue val"
    unfolding normalizedValue_def Let_def clamp_deadzone_code[unfolded Let_def] ..
  finally show ?thesis by simp
qed

section \<open>The state mapper\<close>

lemma key_code_cases:
  fixes code :: uint16
  obtains "code = 304" | "code = 305" | "code = 307" | "code = 308" | "code = 310"
    | "code = 311" | "code = 312" | "code = 313" | "code = 314" | "code = 315"
    | "code = 316" | "code = 317" | "code = 318"
    | "code \<notin> {304, 305, 307, 308, 310, 311, 312, 313, 314, 315, 316, 317, 318}"
  by blast

lemma abs_code_cases:
  fixes code :: uint16
  obtains "code = 0" | "code = 1" | "code = 3" | "code = 4" | "code = 16" | "code = 17"
    | "code \<notin> {0, 1, 3, 4, 16, 17}"
  by blast

lemma key_switch_unknown:
  "mapped_fields EV_KEY code = [] \<Longrightarrow> key_switch code val pressed con = con"
  by (cases code rule: key_code_cases)
     (simp_all add: key_switch_def mapped_fields_def EV_KEY_def Let_def)

lemma abs_switch_unknown:
  "mapped_fields EV_ABS code = [] \<Longrightarrow> abs_switch code val nv con = con"
  by (cases code rule: abs_code_cases)
     (simp_all add: abs_switch_def mapped_fields_def EV_ABS_def Let_def)

lemma key_switch_frame:
  "f \<notin> set (mapped_fields EV_KEY code) \<Longrightarrow>
     get_field f (Input (key_switch code val pressed con)) = get_field f (Input con)"
  by (cases code rule: key_code_cases; cases f)
     (simp_all add: key_switch_def mapped_fields_def EV_KEY_def Let_def)

lemma abs_switch_frame:
  "f \<notin> set (mapped_fields EV_ABS code) \<Longrightarrow>
     get_field f (Input (abs_switch code val nv con)) = get_field f (Input con)"
  by (cases code rule: abs_code_cases; cases f)
     (simp_all add: abs_switch_def mapped_fields_def EV_ABS_def Let_def)

lemma mapped_fields_length:
  "length (mapped_fields eventType code) \<le> 2 \<and>
   (length (mapped_fields eventType code) = 2 \<longleftrightarrow>
      eventType = EV_ABS \<and> (code = 16 \<or> code = 17))"
  by (simp add: mapped_fields_def EV_ABS_def)

lemma cm_normalizedValue_spec: "cm_normalizedValue val = spec_normalize (sint val)"
proof -
  have "spec_normalize (sint val) = deadzone (clamp_unit
       (if sint val \<ge> 0 \<and> sint val \<le> 255 then (real_of_int (sint val) - 127.5) / 127.5
        else if sint val \<ge> - 32768 \<and> sint val \<le> 32767 then real_of_int (sint val) / 32767.0
        else if sint val \<ge> 0 \<and> sint val \<le> 4095 then (real_of_int (sint val) - 2048.0) / 2048.0
        else if sint val \<ge> 0 \<and> sint val \<le> 1023 then (real_of_int (sint val) - 512.0) / 512.0
        else (real_of_int (sint val) - 127.5) / 127.5))"
    unfolding spec_normalize_def find_precedence apply_rule_def
    by (simp add: rule_8bit_def rule_16bit_def rule_12bit_def rule_10bit_def)
  then show ?thesis
    unfolding cm_normalizedValue_post unreachable_branches by simp
qed

lemma key_switch_value:
  assumes "f \<in> set (mapped_fields EV_KEY code)"
    and "f = F_Stick_Left_Press \<or> f = F_Stick_Right_Press \<longrightarrow> val = 0 \<or> val = 1"
  shows "get_field f (Input (key_switch code val (sint val > 0) con)) = spec_value f val"
  using assms
  by (cases code rule: key_code_cases)
     (auto simp: key_switch_def mapped_fields_def EV_KEY_def setInput_def Let_def)

lemma key_switch_overwrites:
  assumes "f \<in> set (mapped_fields EV_KEY code)"
  shows "get_field f (Input (key_switch code val pressed con))
           = get_field f (Input (key_switch code val pressed con'))"
  using assms
  by (cases code rule: key_code_cases)
     (auto simp: key_switch_def mapped_fields_def EV_KEY_def setInput_def Let_def)

lemma abs_switch_value:
  assumes "f \<in> set (mapped_fields EV_ABS code)"
  shows "get_field f (Input (abs_switch code val (spec_normalize (sint val)) con))
           = spec_value f val"
  using assms
  by (cases code rule: abs_code_cases)
     (auto simp: abs_switch_def mapped_fields_def EV_ABS_def Let_def)

lemma abs_switch_overwrites:
  assumes "f \<in> set (mapped_fields EV_ABS code)"
  shows "get_field f (Input (abs_switch code val nv con))
           = get_field f (Input (abs_switch code val nv con'))"
  using assms
  by (cases code rule: abs_code_cases)
     (auto simp: abs_switch_def mapped_fields_def EV_ABS_def Let_def)

lemma key_switch_rest:
  "path (key_switch code val pressed con) = path con \<and>
   LogLevel (key_switch code val pressed con) = LogLevel con"
  by (simp add: key_switch_def Let_def)

lemma abs_switch_rest:
  "path (abs_switch code val nv con) = path con \<and>
   LogLevel (abs_switch code val nv con) = LogLevel con"
  by (simp add: abs_switch_def Let_def)

lemma mapped_fields_none:
  "eventType \<noteq> EV_KEY \<Longrightarrow> eventType \<noteq> EV_ABS \<Longrightarrow> mapped_fields eventType code = []"
  by (simp add: mapped_fields_def EV_KEY_def EV_ABS_def)

lemma cm_handleInputEvent_writes:
  "(f \<in> set (mapped_fields eventType code) \<and>
      (f = F_Stick_Left_Press \<or> f = F_Stick_Right_Press \<longrightarrow> val = 0 \<or> val = 1) \<longrightarrow>
      get_field f (Input (cm_handleInputEvent eventType code val con)) = spec_value f val) \<and>
   (f \<in> set (mapped_fields eventType code) \<longrightarrow>
      get_field f (Input (cm_handleInputEvent eventType code val con))
        = get_field f (Input (cm_handleInputEvent eventType code val con'))) \<and>
   (f \<notin> set (mapped_fields eventType code) \<longrightarrow>
      get_field f (Input (cm_handleInputEvent eventType code val con)) = get_field f (Input con)) \<and>
   (mapped_fields eventType code = [] \<longrightarrow> cm_handleInputEvent eventType code val con = con) \<and>
   path (cm_handleInputEvent eventType code val con) = path con \<and>
   LogLevel (cm_handleInputEvent eventType code val con) = LogLevel con"
proof -
  consider (key) "eventType = EV_KEY" | (abs) "eventType = EV_ABS"
    | (other) "eventType \<noteq> EV_KEY" "eventType \<noteq> EV_ABS"
    by blast
  then show ?thesis
  proof cases
    case key
    have h: "cm_handleInputEvent EV_KEY code val c = key_switch code val (sint val > 0) c"
      for c by (simp add: cm_handleInputEvent_def)
    show ?thesis
      unfolding key h
      using key_switch_value [of f code val con] key_switch_overwrites [of f code val _ con con']
        key_switch_frame [of f code val _ con] key_switch_unknown [of code val _ con]
        key_switch_rest [of code val _ con]
      by blast
  next
    case abs
    have h: "cm_handleInputEvent EV_ABS code val c
        = abs_switch code val (spec_normalize (sint val)) c" for c
      by (simp add: cm_handleInputEvent_def EV_KEY_def EV_ABS_def cm_normalizedValue_spec)
    show ?thesis
      unfolding abs h
      using abs_switch_value [of f code val con] abs_switch_overwrites [of f code val _ con con']
        abs_switch_frame [of f code val _ con] abs_switch_unknown [of code val _ con]
        abs_switch_rest [of code val _ con]
      by blast
  next
    case other
    then show ?thesis
      by (simp add: cm_handleInputEvent_def mapped_fields_none)
  qed
qed

text \<open>
  C5, as amended: an event writes the fields its type and code are mapped to and
  changes no other. A mapped field takes the value section 4.3 gives it, whatever it
  held before (for a stick press the value is the specification's when the raw value
  is 0 or 1); every field the event is not mapped to, and the rest of the controller,
  is as it was. The button codes, the two stick presses and the four stick axes are
  mapped to one field each, the d-pad codes 16 and 17 to two; an event whose type and
  code are outside the mapping leaves the controller as it is. Both handlers.
\<close>

theorem handleInputEvent_writes:
  "(f \<in> set (mapped_fields eventType code) \<and>
      (f = F_Stick_Left_Press \<or> f = F_Stick_Right_Press \<longrightarrow> val = 0 \<or> val = 1) \<longrightarrow>
      get_field f (Input (handleInputEvent eventType code val con)) = spec_value f val \<and>
      get_field f (Input (cm_handleInputEvent eventType code val con)) = spec_value f val) \<and>
   (f \<in> set (mapped_fields eventType code) \<longrightarrow>
      get_field f (Input (handleInputEvent eventType code val con))
        = get_field f (Input (handleInputEvent eventType code val con')) \<and>
      get_field f (Input (cm_handleInputEvent eventType code val con))
        = get_field f (Input (cm_handleInputEvent eventType code val con'))) \<and>
   (f \<notin> set (mapped_fields eventType code) \<longrightarrow>
      get_field f (Input (handleInputEvent eventType code val con)) = get_field f (Input con) \<and>
      get_field f (Input (cm_handleInputEvent eventType code val con)) = get_field f (Input con)) \<and>
   (mapped_fields eventType code = [] \<longrightarrow>
      handleInputEvent eventType code val con = con \<and>
      cm_handleInputEvent eventType code val con = con) \<and>
   path (handleInputEvent eventType code val con) = path con \<and>
   LogLevel (handleInputEvent eventType code val con) = LogLevel con \<and>
   path (cm_handleInputEvent eventType code val con) = path con \<and>
   LogLevel (cm_handleInputEvent eventType code val con) = LogLevel con \<and>
   length (mapped_fields eventType code) \<le> 2 \<and>
   (length (mapped_fields eventType code) = 2 \<longleftrightarrow>
      eventType = EV_ABS \<and> (code = 16 \<or> code = 17))"
proof -
  have same: "handleInputEvent eventType code val c = cm_handleInputEvent eventType code val c"
    for c
    by (simp only: handleInputEvent_def cm_handleInputEvent_def normalizedValue_cm)
  show ?thesis
    unfolding same
    using cm_handleInputEvent_writes [of f eventType code val con con']
      mapped_fields_length [of eventType code]
    by blast
qed

theorem handleInputEvent_writes_witness:
  "get_field F_Button_A (Input (handleInputEvent EV_KEY 304 1 (NewController ''/dev/hidg0'')))
     = Inl 1 \<and>
   get_field F_Stick_Left_Y (Input (cm_handleInputEvent EV_ABS 1 200 (NewController ''/dev/hidg0'')))
     = Inr (- (29 / 51)) \<and>
   get_field F_Dpad_Left (Input (handleInputEvent EV_ABS 16 (- 1) (NewController ''/dev/hidg0'')))
     = Inl 1 \<and>
   get_field F_Dpad_Right (Input (handleInputEvent EV_ABS 16 (- 1) (NewController ''/dev/hidg0'')))
     = Inl 0 \<and>
   get_field F_Button_B (Input (handleInputEvent EV_KEY 304 1 (NewController ''/dev/hidg0'')))
     = Inl 0 \<and>
   handleInputEvent EV_KEY 306 1 (NewController ''/dev/hidg0'') = NewController ''/dev/hidg0'' \<and>
   cm_handleInputEvent EV_ABS 2 200 (NewController ''/dev/hidg0'') = NewController ''/dev/hidg0''"
proof -
  let ?con = "NewController ''/dev/hidg0''"
  have n: "spec_normalize 200 = 29 / 51"
    by (simp add: spec_normalize_def precedence_def in_range_def rule_8bit_def apply_rule_def
        deadzone_def clamp_unit_def)
  have a: "get_field F_Button_A (Input (handleInputEvent EV_KEY 304 1 ?con)) = Inl 1"
    using handleInputEvent_writes [of F_Button_A EV_KEY 304 1 ?con]
    by (simp add: mapped_fields_def EV_KEY_def)
  have y: "get_field F_Stick_Left_Y (Input (cm_handleInputEvent EV_ABS 1 200 ?con))
      = Inr (- (29 / 51))"
    using handleInputEvent_writes [of F_Stick_Left_Y EV_ABS 1 200 ?con] n
    by (simp add: mapped_fields_def EV_ABS_def)
  have l: "get_field F_Dpad_Left (Input (handleInputEvent EV_ABS 16 (- 1) ?con)) = Inl 1"
    using handleInputEvent_writes [of F_Dpad_Left EV_ABS 16 "- 1" ?con]
    by (simp add: mapped_fields_def EV_ABS_def)
  have r: "get_field F_Dpad_Right (Input (handleInputEvent EV_ABS 16 (- 1) ?con)) = Inl 0"
    using handleInputEvent_writes [of F_Dpad_Right EV_ABS 16 "- 1" ?con]
    by (simp add: mapped_fields_def EV_ABS_def)
  have b: "get_field F_Button_B (Input (handleInputEvent EV_KEY 304 1 ?con)) = Inl 0"
    using handleInputEvent_writes [of F_Button_B EV_KEY 304 1 ?con]
    by (simp add: mapped_fields_def EV_KEY_def NewController_def zeroInput_def)
  have u: "handleInputEvent EV_KEY 306 1 ?con = ?con"
    using handleInputEvent_writes [of F_Button_A EV_KEY 306 1 ?con]
    by (simp add: mapped_fields_def EV_KEY_def)
  have v: "cm_handleInputEvent EV_ABS 2 200 ?con = ?con"
    using handleInputEvent_writes [of F_Button_A EV_ABS 2 200 ?con]
    by (simp add: mapped_fields_def EV_ABS_def)
  from a y l r b u v show ?thesis by simp
qed

text \<open>
  C5 as stated fails: with the d-pad held to the left, one event of the known code 16
  with value 1 changes two fields of the state, \<open>Dpad.Left\<close> and \<open>Dpad.Right\<close>.
\<close>

theorem dpad_two_fields_counterexample:
  "changed_fields
     (handleInputEvent EV_ABS 16 (- 1) (NewController ''/dev/hidg0''))
     (handleInputEvent EV_ABS 16 1
        (handleInputEvent EV_ABS 16 (- 1) (NewController ''/dev/hidg0'')))
   = [F_Dpad_Left, F_Dpad_Right]"
  by (simp add: changed_fields_def all_fields_def handleInputEvent_def abs_switch_def
      EV_KEY_def EV_ABS_def NewController_def zeroInput_def Let_def)

section \<open>The invariant of the state\<close>

lemma ucast_minus_1: "(ucast (- 1 :: int32) :: uint8) = 255"
  by (simp add: unsigned_minus_1_eq_mask mask_eq_exp_minus_1)

text \<open>
  C4: the code at the two stick-press codes. A key event of code 317 with value 2 (the
  kernel's auto-repeat value) stores 2 in \<open>Stick.Left.Press\<close>, and one of code 318 with
  value -1 stores 255 in \<open>Stick.Right.Press\<close>: \<open>uint8(value)\<close> is stored where the other
  eleven buttons go through \<open>setInput\<close>. The state after the event is not canonical.
\<close>

theorem stick_press_not_digital:
  "canonical (Input (NewController ''/dev/hidg0'')) \<and>
   Stick_Left_Press (Input (cm_handleInputEvent EV_KEY 317 2 (NewController ''/dev/hidg0''))) = 2 \<and>
   \<not> canonical (Input (cm_handleInputEvent EV_KEY 317 2 (NewController ''/dev/hidg0''))) \<and>
   Stick_Right_Press (Input (handleInputEvent EV_KEY 318 (- 1) (NewController ''/dev/hidg0'')))
     = 255 \<and>
   \<not> canonical (Input (handleInputEvent EV_KEY 318 (- 1) (NewController ''/dev/hidg0'')))"
  by (simp add: canonical_def digital_def analog_def cm_handleInputEvent_def handleInputEvent_def
      key_switch_def EV_KEY_def NewController_def zeroInput_def Let_def ucast_minus_1)

section \<open>The event decoder\<close>

lemma uint_byte_lt: "uint (b::byte) < 256"
  using unsigned_less [of b, where 'a = int] by simp

lemma uint_ucast_byte16: "uint (ucast (b::byte) :: 16 word) = uint b"
  using uint_byte_lt[of b] by (simp add: unsigned_ucast_eq take_bit_int_eq_self)

lemma uint_ucast_byte32: "uint (ucast (b::byte) :: 32 word) = uint b"
  using uint_byte_lt[of b] by (simp add: unsigned_ucast_eq take_bit_int_eq_self)

lemma or_plus16:
  "(ucast (b0::byte) OR push_bit 8 (ucast (b1::byte)) :: 16 word)
     = ucast b0 + push_bit 8 (ucast b1)"
  by (rule disjunctive_add[symmetric]) (auto simp: bit_simps dest: bit_imp_le_length)

lemma uint_le16:
  "uint (ucast (b0::byte) OR push_bit 8 (ucast (b1::byte)) :: 16 word) = uint b0 + 256 * uint b1"
proof -
  have "uint (push_bit 8 (ucast b1 :: 16 word)) = 256 * uint b1"
    using uint_byte_lt[of b1]
    by (simp add: push_bit_eq_mult uint_word_ariths uint_ucast_byte16)
  then show ?thesis
    unfolding or_plus16 using uint_byte_lt[of b0] uint_byte_lt[of b1]
    by (simp add: uint_word_ariths uint_ucast_byte16)
qed

lemma or_plus32:
  "(((ucast (b0::byte) OR push_bit 8 (ucast (b1::byte))) OR push_bit 16 (ucast (b2::byte)))
      OR push_bit 24 (ucast (b3::byte)) :: 32 word)
    = ucast b0 + push_bit 8 (ucast b1) + push_bit 16 (ucast b2) + push_bit 24 (ucast b3)"
proof -
  have 1: "(ucast b0 OR push_bit 8 (ucast b1) :: 32 word) = ucast b0 + push_bit 8 (ucast b1)"
    by (rule disjunctive_add[symmetric]) (auto simp: bit_simps dest: bit_imp_le_length)
  have 2: "((ucast b0 OR push_bit 8 (ucast b1)) OR push_bit 16 (ucast b2) :: 32 word)
      = (ucast b0 OR push_bit 8 (ucast b1)) + push_bit 16 (ucast b2)"
    by (rule disjunctive_add[symmetric]) (auto simp: bit_simps dest: bit_imp_le_length)
  have 3: "(((ucast b0 OR push_bit 8 (ucast b1)) OR push_bit 16 (ucast b2))
        OR push_bit 24 (ucast b3) :: 32 word)
      = ((ucast b0 OR push_bit 8 (ucast b1)) OR push_bit 16 (ucast b2)) + push_bit 24 (ucast b3)"
    by (rule disjunctive_add[symmetric]) (auto simp: bit_simps dest: bit_imp_le_length)
  have "(((ucast b0 OR push_bit 8 (ucast b1)) OR push_bit 16 (ucast b2))
        OR push_bit 24 (ucast b3) :: 32 word)
      = ((ucast b0 OR push_bit 8 (ucast b1)) OR push_bit 16 (ucast b2)) + push_bit 24 (ucast b3)"
    by (rule 3)
  also have "\<dots> = ((ucast b0 OR push_bit 8 (ucast b1)) + push_bit 16 (ucast b2))
      + push_bit 24 (ucast b3)"
    by (simp only: 2)
  also have "\<dots> = ucast b0 + push_bit 8 (ucast b1) + push_bit 16 (ucast b2)
      + push_bit 24 (ucast b3)"
    by (simp only: 1)
  finally show ?thesis .
qed

lemma uint_le32:
  "uint (((ucast (b0::byte) OR push_bit 8 (ucast (b1::byte))) OR push_bit 16 (ucast (b2::byte)))
      OR push_bit 24 (ucast (b3::byte)) :: 32 word)
   = uint b0 + 2 ^ 8 * uint b1 + 2 ^ 16 * uint b2 + 2 ^ 24 * uint b3"
proof -
  have p1: "uint (push_bit 8 (ucast b1 :: 32 word)) = 2 ^ 8 * uint b1"
    using uint_byte_lt[of b1] by (simp add: push_bit_eq_mult uint_word_ariths uint_ucast_byte32)
  have p2: "uint (push_bit 16 (ucast b2 :: 32 word)) = 2 ^ 16 * uint b2"
    using uint_byte_lt[of b2] by (simp add: push_bit_eq_mult uint_word_ariths uint_ucast_byte32)
  have p3: "uint (push_bit 24 (ucast b3 :: 32 word)) = 2 ^ 24 * uint b3"
    using uint_byte_lt[of b3] by (simp add: push_bit_eq_mult uint_word_ariths uint_ucast_byte32)
  show ?thesis
    unfolding or_plus32
    using uint_byte_lt[of b0] uint_byte_lt[of b1] uint_byte_lt[of b2] uint_byte_lt[of b3]
    by (simp add: uint_word_ariths uint_ucast_byte32 p1 p2 p3)
qed

lemma sint32:
  "sint (w :: 32 word) = (if uint w < 2 ^ 31 then uint w else uint w - 2 ^ 32)"
proof -
  have lt: "uint w < 2 ^ 32" using unsigned_less [of w, where 'a = int] by simp
  have ge: "0 \<le> uint w" by simp
  have s: "sint w = (uint w + 2 ^ 31) mod 2 ^ 32 - 2 ^ 31"
    by (simp add: sint_uint signed_take_bit_eq_take_bit_shift take_bit_eq_mod)
  show ?thesis
  proof (cases "uint w < 2 ^ 31")
    case True
    then show ?thesis using ge s by simp
  next
    case False
    then have "(uint w + 2 ^ 31) mod 2 ^ 32 = uint w + 2 ^ 31 - 2 ^ 32"
      using lt by (simp add: mod_pos_geq)
    then show ?thesis using False s by simp
  qed
qed

lemma file_Read_length:
  "file_Read r buffer = (n, err, buffer') \<Longrightarrow> length buffer' = length buffer"
  by (auto simp: file_Read_def Let_def)

text \<open>
  C8: on a 24-byte buffer the decoder gives the type as the little-endian unsigned
  16-bit integer at offset 16, the code as the one at offset 18 and the value as the
  little-endian two's-complement 32-bit integer at offset 20; the first 16 bytes are
  not read. A read whose byte count is not 24 is dropped: both loops go on to the next
  read with the controller as it was. A read of 24 bytes without error hands the three
  decoded values to the event handler.
\<close>

theorem decoder_contract:
  "(length buffer = 24 \<longrightarrow>
      uint (eventType_of buffer) = le_u16 (buffer ! 16) (buffer ! 17) \<and>
      uint (code_of buffer) = le_u16 (buffer ! 18) (buffer ! 19) \<and>
      sint (value_of buffer) = le_s32 (buffer ! 20) (buffer ! 21) (buffer ! 22) (buffer ! 23)) \<and>
   (file_Read r buffer = (n, err, buffer') \<and> n \<noteq> 24 \<longrightarrow>
      length buffer' = length buffer \<and>
      readInputEvents_loop (r # rest) buffer con = readInputEvents_loop rest buffer' con \<and>
      (controllers cm playerNum \<noteq> None \<longrightarrow>
         readControllerInput_loop playerNum ((cm, r) # its) buffer con
           = readControllerInput_loop playerNum its buffer' con)) \<and>
   (file_Read r buffer = (n, err, buffer') \<and> n = 24 \<and> \<not> err \<longrightarrow>
      length buffer' = length buffer \<and>
      readInputEvents_loop (r # rest) buffer con
        = readInputEvents_loop rest buffer'
            (handleInputEvent (eventType_of buffer') (code_of buffer') (value_of buffer') con) \<and>
      (controllers cm playerNum \<noteq> None \<longrightarrow>
         readControllerInput_loop playerNum ((cm, r) # its) buffer con
           = readControllerInput_loop playerNum its buffer'
               (cm_handleInputEvent (eventType_of buffer') (code_of buffer')
                  (value_of buffer') con)))"
proof (intro conjI impI)
  show "uint (eventType_of buffer) = le_u16 (buffer ! 16) (buffer ! 17)"
    by (simp add: eventType_of_def le_u16_def uint_le16)
  show "uint (code_of buffer) = le_u16 (buffer ! 18) (buffer ! 19)"
    by (simp add: code_of_def le_u16_def uint_le16)
  show "sint (value_of buffer) = le_s32 (buffer ! 20) (buffer ! 21) (buffer ! 22) (buffer ! 23)"
    unfolding value_of_def le_s32_def Let_def sint32 uint_le32 ..
next
  assume a: "file_Read r buffer = (n, err, buffer') \<and> n \<noteq> 24"
  then show "length buffer' = length buffer"
    by (auto dest: file_Read_length)
  from a show "readInputEvents_loop (r # rest) buffer con = readInputEvents_loop rest buffer' con"
    by (simp add: eventSize_def)
  assume "controllers cm playerNum \<noteq> None"
  with a show "readControllerInput_loop playerNum ((cm, r) # its) buffer con
      = readControllerInput_loop playerNum its buffer' con"
    by (auto simp: eventSize_def)
next
  assume a: "file_Read r buffer = (n, err, buffer') \<and> n = 24 \<and> \<not> err"
  then show "length buffer' = length buffer"
    by (auto dest: file_Read_length)
  from a show "readInputEvents_loop (r # rest) buffer con
        = readInputEvents_loop rest buffer'
            (handleInputEvent (eventType_of buffer') (code_of buffer') (value_of buffer') con)"
    by (simp add: eventSize_def)
  assume "controllers cm playerNum \<noteq> None"
  with a show "readControllerInput_loop playerNum ((cm, r) # its) buffer con
           = readControllerInput_loop playerNum its buffer'
               (cm_handleInputEvent (eventType_of buffer') (code_of buffer')
                  (value_of buffer') con)"
    by (auto simp: eventSize_def)
qed

theorem decoder_contract_witness:
  "uint (eventType_of press_A_record) = 1 \<and>
   uint (code_of press_A_record) = 304 \<and>
   sint (value_of press_A_record) = 1 \<and>
   sint (value_of dpad_left_record) = - 1 \<and>
   readInputEvents_loop [short_read] (replicate 24 0) (NewController ''/dev/hidg0'')
     = ([1, 2, 3] @ replicate 21 0, NewController ''/dev/hidg0'') \<and>
   Button_A (Input (snd (readInputEvents_loop [short_read, press_A_read] (replicate 24 0)
     (NewController ''/dev/hidg0'')))) = 1 \<and>
   readControllerInput_loop 1
     [(fst (snd (AddController connect_always (NewControllerManager 1) 1 ''/dev/hidg0''
         ''/dev/input/event2'')), short_read)]
     (replicate 24 0) (NewController ''/dev/hidg0'') = (Reading, NewController ''/dev/hidg0'')"
proof -
  let ?con = "NewController ''/dev/hidg0''"
  let ?cm = "fst (snd (AddController connect_always (NewControllerManager 1) 1 ''/dev/hidg0''
         ''/dev/input/event2''))"
  have len: "length press_A_record = 24" "length dpad_left_record = 24"
    by (simp_all add: press_A_record_def dpad_left_record_def)
  have dec: "uint (eventType_of press_A_record) = 1" "uint (code_of press_A_record) = 304"
    "sint (value_of press_A_record) = 1"
    using decoder_contract [of press_A_record] len
    by (simp_all add: le_u16_def le_s32_def press_A_record_def)
  have neg: "sint (value_of dpad_left_record) = - 1"
    using decoder_contract [of dpad_left_record] len
    by (simp add: le_s32_def dpad_left_record_def)
  have rd: "file_Read short_read (replicate 24 0) = (3, False, [1, 2, 3] @ replicate 21 0)"
    by (simp add: file_Read_def short_read_def Let_def)
  have short: "readInputEvents_loop (short_read # rest) (replicate 24 0) ?con
      = readInputEvents_loop rest ([1, 2, 3] @ replicate 21 0) ?con" for rest
    using decoder_contract [where r = short_read and buffer = "replicate 24 0" and n = 3
        and err = False and buffer' = "[1, 2, 3] @ replicate 21 0" and rest = rest
        and con = ?con] rd
    by simp
  have reg: "controllers ?cm 1 \<noteq> None"
    by (simp add: AddController_def connect_always_def NewControllerManager_def Let_def)
  have multi: "readControllerInput_loop 1 [(?cm, short_read)] (replicate 24 0) ?con
      = readControllerInput_loop 1 [] ([1, 2, 3] @ replicate 21 0) ?con"
    using decoder_contract [where r = short_read and buffer = "replicate 24 0" and n = 3
        and err = False and buffer' = "[1, 2, 3] @ replicate 21 0" and its = "[]"
        and con = ?con and cm = ?cm and playerNum = 1] rd reg
    by simp
  have rd2: "file_Read press_A_read ([1, 2, 3] @ replicate 21 0) = (24, False, press_A_record)"
    by (simp add: file_Read_def press_A_read_def Let_def press_A_record_def)
  have w: "eventType_of press_A_record = 1" "code_of press_A_record = 304"
    "value_of press_A_record = 1"
    by (simp_all add: eventType_of_def code_of_def value_of_def press_A_record_def)
  have full: "readInputEvents_loop [press_A_read] ([1, 2, 3] @ replicate 21 0) ?con
      = (press_A_record, handleInputEvent 1 304 1 ?con)"
    using decoder_contract [where r = press_A_read and buffer = "[1, 2, 3] @ replicate 21 0"
        and n = 24 and err = False and buffer' = press_A_record and rest = "[]"
        and con = ?con] rd2 w
    by simp
  have a: "Button_A (Input (handleInputEvent 1 304 1 ?con)) = 1"
    by (simp add: handleInputEvent_def key_switch_def EV_KEY_def setInput_def Let_def)
  from dec neg short [of "[]"] short [of "[press_A_read]"] full a multi show ?thesis
    by simp
qed

section \<open>The controller manager\<close>

text \<open>
  C6: \<open>AddController\<close> with a player number below 1 or above 8 returns the range error
  and the manager as it was, and starts no reader. A call for a player that is
  registered returns the duplicate error and the manager as it was; in particular,
  after a call that succeeded, any second call for the same player does, and the
  registry still holds the controller of the first call for that player.
\<close>

theorem AddController_range_duplicate:
  "(playerNum < 1 \<or> playerNum > 8 \<longrightarrow>
      AddController Connect cm playerNum h d = (Some RangeError, cm, None)) \<and>
   (1 \<le> playerNum \<and> playerNum \<le> 8 \<and> controllers cm playerNum \<noteq> None \<longrightarrow>
      AddController Connect cm playerNum h d = (Some DuplicateError, cm, None)) \<and>
   (AddController Connect cm playerNum h d = (None, cm1, g) \<longrightarrow>
      AddController Connect' cm1 playerNum h' d' = (Some DuplicateError, cm1, None) \<and>
      controllers cm1 playerNum = Some ((NewController h)\<lparr>LogLevel := logLevel cm\<rparr>))"
proof (intro conjI impI)
  assume "playerNum < 1 \<or> playerNum > 8"
  then show "AddController Connect cm playerNum h d = (Some RangeError, cm, None)"
    by (simp add: AddController_def)
next
  assume "1 \<le> playerNum \<and> playerNum \<le> 8 \<and> controllers cm playerNum \<noteq> None"
  then show "AddController Connect cm playerNum h d = (Some DuplicateError, cm, None)"
    by (auto simp: AddController_def)
next
  assume ok: "AddController Connect cm playerNum h d = (None, cm1, g)"
  then have rng: "\<not> (playerNum < 1 \<or> playerNum > 8)"
    by (auto simp: AddController_def split: if_splits)
  from ok have "cm1 = cm\<lparr>controllers :=
        (controllers cm)(playerNum \<mapsto> (NewController h)\<lparr>LogLevel := logLevel cm\<rparr>),
      devices := (devices cm)(playerNum \<mapsto> d)\<rparr>"
    by (auto simp: AddController_def Let_def split: if_splits)
  then show reg: "controllers cm1 playerNum = Some ((NewController h)\<lparr>LogLevel := logLevel cm\<rparr>)"
    by simp
  with rng show "AddController Connect' cm1 playerNum h' d' = (Some DuplicateError, cm1, None)"
    by (simp add: AddController_def)
qed

theorem AddController_range_duplicate_witness:
  "AddController connect_always (NewControllerManager 1) 0 ''/dev/hidg0'' ''/dev/input/event2''
     = (Some RangeError, NewControllerManager 1, None) \<and>
   AddController connect_always (NewControllerManager 1) 9 ''/dev/hidg0'' ''/dev/input/event2''
     = (Some RangeError, NewControllerManager 1, None) \<and>
   fst (AddController connect_always (NewControllerManager 1) 1 ''/dev/hidg0''
          ''/dev/input/event2'') = None \<and>
   fst (AddController connect_always
          (fst (snd (AddController connect_always (NewControllerManager 1) 1 ''/dev/hidg0''
             ''/dev/input/event2'')))
          1 ''/dev/hidg1'' ''/dev/input/event3'') = Some DuplicateError"
proof -
  let ?cm = "NewControllerManager 1"
  let ?r = "AddController connect_always ?cm 1 ''/dev/hidg0'' ''/dev/input/event2''"
  have none: "fst ?r = None"
    by (simp add: AddController_def connect_always_def NewControllerManager_def Let_def)
  then have ok: "?r = (None, fst (snd ?r), snd (snd ?r))"
    by (metis prod.collapse)
  have lo: "AddController connect_always ?cm 0 ''/dev/hidg0'' ''/dev/input/event2''
      = (Some RangeError, ?cm, None)"
    using AddController_range_duplicate [where playerNum = 0] by simp
  have hi: "AddController connect_always ?cm 9 ''/dev/hidg0'' ''/dev/input/event2''
      = (Some RangeError, ?cm, None)"
    using AddController_range_duplicate [where playerNum = 9] by simp
  have dup: "AddController connect_always (fst (snd ?r)) 1 ''/dev/hidg1'' ''/dev/input/event3''
      = (Some DuplicateError, fst (snd ?r), None)"
    using AddController_range_duplicate [where playerNum = 1 and cm = ?cm
        and Connect = connect_always and h = "''/dev/hidg0''" and d = "''/dev/input/event2''"
        and ?cm1.0 = "fst (snd ?r)" and g = "snd (snd ?r)"] ok
    by blast
  from none lo hi dup show ?thesis by simp
qed

text \<open>
  In \<open>multi_controller.go\<close>, a call of \<open>AddController\<close> that returns an error returns the
  manager as it was and starts no reader, and the error is the range error exactly when
  the player number is outside 1..8, the duplicate error exactly when it is inside and
  the player is registered, and the connect error exactly when it is inside, the player
  is not registered and \<open>Connect\<close> fails.
\<close>

theorem AddController_failure_unchanged:
  "AddController Connect cm playerNum h d = (Some e, cm', g) \<longrightarrow>
     cm' = cm \<and> g = None \<and>
     (e = RangeError \<longleftrightarrow> playerNum < 1 \<or> playerNum > 8) \<and>
     (e = DuplicateError \<longleftrightarrow>
        1 \<le> playerNum \<and> playerNum \<le> 8 \<and> controllers cm playerNum \<noteq> None) \<and>
     (e = ConnectError \<longleftrightarrow>
        1 \<le> playerNum \<and> playerNum \<le> 8 \<and> controllers cm playerNum = None \<and>
        \<not> Connect ((NewController h)\<lparr>LogLevel := logLevel cm\<rparr>))"
proof
  assume r: "AddController Connect cm playerNum h d = (Some e, cm', g)"
  consider (range) "playerNum < 1 \<or> playerNum > 8"
    | (dup) "1 \<le> playerNum" "playerNum \<le> 8" "controllers cm playerNum \<noteq> None"
    | (conn) "1 \<le> playerNum" "playerNum \<le> 8" "controllers cm playerNum = None"
    by fastforce
  then show "cm' = cm \<and> g = None \<and>
     (e = RangeError \<longleftrightarrow> playerNum < 1 \<or> playerNum > 8) \<and>
     (e = DuplicateError \<longleftrightarrow>
        1 \<le> playerNum \<and> playerNum \<le> 8 \<and> controllers cm playerNum \<noteq> None) \<and>
     (e = ConnectError \<longleftrightarrow>
        1 \<le> playerNum \<and> playerNum \<le> 8 \<and> controllers cm playerNum = None \<and>
        \<not> Connect ((NewController h)\<lparr>LogLevel := logLevel cm\<rparr>))"
  proof cases
    case range
    with r show ?thesis by (auto simp: AddController_def)
  next
    case dup
    with r show ?thesis by (auto simp: AddController_def)
  next
    case conn
    with r show ?thesis by (auto simp: AddController_def Let_def split: if_splits)
  qed
qed

theorem AddController_failure_unchanged_witness:
  "AddController connect_never (NewControllerManager 1) 1 ''/dev/hidg0'' ''/dev/input/event2''
     = (Some ConnectError, NewControllerManager 1, None)"
proof -
  let ?r = "AddController connect_never (NewControllerManager 1) 1 ''/dev/hidg0''
      ''/dev/input/event2''"
  have e: "fst ?r = Some ConnectError"
    by (simp add: AddController_def connect_never_def NewControllerManager_def Let_def)
  then have "?r = (Some ConnectError, fst (snd ?r), snd (snd ?r))"
    by (metis prod.collapse)
  with AddController_failure_unchanged [where Connect = connect_never
      and cm = "NewControllerManager 1" and playerNum = 1 and h = "''/dev/hidg0''"
      and d = "''/dev/input/event2''" and e = ConnectError and cm' = "fst (snd ?r)"
      and g = "snd (snd ?r)"]
  have "fst (snd ?r) = NewControllerManager 1 \<and> snd (snd ?r) = None"
    by blast
  with e show ?thesis
    by (metis prod.collapse)
qed

text \<open>
  C1: the code at an input device that cannot be opened. With an endpoint that connects
  and the input path \<open>/dev/input/event9\<close>, which does not exist, \<open>AddController\<close> of
  \<open>multi_controller.go\<close> returns no error and registers player 1; the reader it started
  fails to open the device, logs and returns, and the controller stays registered and
  is not closed. The \<open>AddController\<close> of the hub program, at the same input, returns an
  error and leaves its registry as it was.
\<close>

theorem open_failure_keeps_session:
  "fst (AddController connect_always (NewControllerManager 1) 1 ''/dev/hidg0''
          ''/dev/input/event9'') = None \<and>
   controllers (fst (snd (AddController connect_always (NewControllerManager 1) 1
          ''/dev/hidg0'' ''/dev/input/event9''))) 1
     = Some ((NewController ''/dev/hidg0'')\<lparr>LogLevel := 1\<rparr>) \<and>
   snd (snd (AddController connect_always (NewControllerManager 1) 1 ''/dev/hidg0''
          ''/dev/input/event9''))
     = Some (1, ''/dev/input/event9'', (NewController ''/dev/hidg0'')\<lparr>LogLevel := 1\<rparr>) \<and>
   readControllerInput only_hidg0 1 ''/dev/input/event9''
       ((NewController ''/dev/hidg0'')\<lparr>LogLevel := 1\<rparr>) []
     = (OpenFailed, (NewController ''/dev/hidg0'')\<lparr>LogLevel := 1\<rparr>) \<and>
   hub_AddController only_hidg0 connect_always (hub_NewControllerManager 1) 1 ''/dev/hidg0''
       ''/dev/input/event9''
     = (Some ValidationError, hub_NewControllerManager 1, None)"
  by (simp add: AddController_def hub_AddController_def connect_always_def only_hidg0_def
      NewControllerManager_def hub_NewControllerManager_def Let_def readControllerInput_def)

text \<open>
  The hub program's \<open>AddController\<close> in general: for a player number in 1..8 that is not
  registered, a missing endpoint or input path gives the validation error, the manager
  as it was and no reader.
\<close>

theorem hub_AddController_validates:
  "1 \<le> playerNum \<and> playerNum \<le> 8 \<and> hub_controllers cm playerNum = None \<and>
     (\<not> Exists h \<or> \<not> Exists d) \<longrightarrow>
   hub_AddController Exists Connect cm playerNum h d = (Some ValidationError, cm, None)"
  by (auto simp: hub_AddController_def)

theorem hub_AddController_validates_witness:
  "hub_AddController only_hidg0 connect_always (hub_NewControllerManager 1) 2 ''/dev/hidg1''
     ''/dev/input/event2'' = (Some ValidationError, hub_NewControllerManager 1, None)"
  using hub_AddController_validates [of 2 "hub_NewControllerManager 1" only_hidg0
      "''/dev/hidg1''" "''/dev/input/event2''" connect_always]
  by (simp add: hub_NewControllerManager_def only_hidg0_def)

text \<open>
  C9: \<open>Close\<close> leaves both maps empty and has closed every controller that was
  registered; a reader that looks its player up in the manager after \<open>Close\<close> stops. A
  second \<open>Close\<close>, or a \<open>Close\<close> of a manager that holds nothing, closes nothing and
  returns the same empty manager.
\<close>

theorem Close_idempotent:
  "controllers (fst (Close cm)) = Map.empty \<and>
   devices (fst (Close cm)) = Map.empty \<and>
   snd (Close cm) = ran (controllers cm) \<and>
   Close (fst (Close cm)) = (fst (Close cm), {}) \<and>
   Close (NewControllerManager lvl) = (NewControllerManager lvl, {}) \<and>
   readControllerInput_loop playerNum ((fst (Close cm), r) # its) buffer con = (Stopped, con)"
proof (intro conjI)
  show "controllers (fst (Close cm)) = Map.empty" and "devices (fst (Close cm)) = Map.empty"
    by (simp_all add: Close_def)
  then show "Close (fst (Close cm)) = (fst (Close cm), {})"
    by (simp add: Close_def)
  show "snd (Close cm) = ran (controllers cm)"
    by (simp add: Close_def)
  show "Close (NewControllerManager lvl) = (NewControllerManager lvl, {})"
    by (simp add: Close_def NewControllerManager_def)
  show "readControllerInput_loop playerNum ((fst (Close cm), r) # its) buffer con = (Stopped, con)"
    by (simp add: Close_def)
qed

section \<open>Further properties of the event handlers\<close>

lemma cm_normalizedValue_analog:
  "analog (cm_normalizedValue val) \<and> analog (- cm_normalizedValue val)"
  unfolding cm_normalizedValue_post
  by (simp add: analog_def deadzone_def clamp_unit_def max_def min_def)

lemma digital_values: "digital 0" "digital 1" "digital (setInput x pressed)"
  by (simp_all add: digital_def setInput_def)

lemma digital_ucast: "val = 0 \<or> val = 1 \<Longrightarrow> digital (ucast (val :: int32))"
  by (auto simp: digital_def)

lemma key_switch_canonical:
  assumes "canonical (Input con)" and "code \<notin> {317, 318} \<or> val = 0 \<or> val = 1"
  shows "canonical (Input (key_switch code val pressed con))"
  using assms
  by (cases code rule: key_code_cases)
     (simp_all add: key_switch_def canonical_def digital_values digital_ucast Let_def)

lemma abs_switch_canonical:
  assumes "canonical (Input con)" and "analog nv" and "analog (- nv)"
  shows "canonical (Input (abs_switch code val nv con))"
  using assms
  by (cases code rule: abs_code_cases)
     (simp_all add: abs_switch_def canonical_def digital_values Let_def)

text \<open>
  Every other event keeps the invariant: a canonical state stays canonical under any
  event that is not a stick press, and under a stick press whose value is 0 or 1.
\<close>

theorem canonical_preserved:
  assumes "canonical (Input con)"
    and "eventType \<noteq> EV_KEY \<or> code \<notin> {317, 318} \<or> val = 0 \<or> val = 1"
  shows "canonical (Input (cm_handleInputEvent eventType code val con)) \<and>
         canonical (Input (handleInputEvent eventType code val con))"
proof -
  have "canonical (Input (cm_handleInputEvent eventType code val con))"
  proof (cases "eventType = EV_KEY")
    case True
    with assms(2) have "code \<notin> {317, 318} \<or> val = 0 \<or> val = 1"
      by blast
    with True assms(1) show ?thesis
      by (simp add: cm_handleInputEvent_def key_switch_canonical)
  next
    case False
    with assms(1) show ?thesis
      by (simp add: cm_handleInputEvent_def abs_switch_canonical cm_normalizedValue_analog)
  qed
  then show ?thesis
    by (simp only: handleInputEvent_def cm_handleInputEvent_def normalizedValue_cm)
qed

theorem canonical_preserved_witness:
  "canonical (Input (cm_handleInputEvent EV_ABS 1 200 (NewController ''/dev/hidg0''))) \<and>
   canonical (Input (handleInputEvent EV_KEY 317 1 (NewController ''/dev/hidg0'')))"
proof -
  have c: "canonical (Input (NewController ''/dev/hidg0''))"
    by (simp add: canonical_def digital_def analog_def NewController_def zeroInput_def)
  show ?thesis
    using canonical_preserved [OF c, of EV_ABS 1 200] canonical_preserved [OF c, of EV_KEY 317 1]
    by (simp add: EV_ABS_def EV_KEY_def)
qed

text \<open>
  The analog scenario of section 8 of the specification: type 3, code 1, raw value 200
  falls under the 8-bit rule, \<open>(200 - 127.5) / 127.5 = 29 / 51\<close>, and is stored inverted
  in the left stick's \<open>Y\<close>.
\<close>

theorem left_stick_y_scenario:
  "Stick_Left_Y (Input (cm_handleInputEvent EV_ABS 1 200 con)) = - (29 / 51) \<and>
   Stick_Left_Y (Input (handleInputEvent EV_ABS 1 200 con)) = - (29 / 51)"
  by (simp add: cm_handleInputEvent_def handleInputEvent_def abs_switch_def EV_ABS_def EV_KEY_def
      normalizedValue_def cm_normalizedValue_def Let_def)

text \<open>
  Value 0 on the d-pad code 16 clears both \<open>Left\<close> and \<open>Right\<close>, whatever they held.
\<close>

theorem dpad_zero_clears:
  "Dpad_Left (Input (cm_handleInputEvent EV_ABS 16 0 con)) = 0 \<and>
   Dpad_Right (Input (cm_handleInputEvent EV_ABS 16 0 con)) = 0 \<and>
   Dpad_Left (Input (handleInputEvent EV_ABS 16 0 con)) = 0 \<and>
   Dpad_Right (Input (handleInputEvent EV_ABS 16 0 con)) = 0"
  by (simp add: cm_handleInputEvent_def handleInputEvent_def abs_switch_def EV_ABS_def EV_KEY_def
      Let_def)

section \<open>Pulse mode\<close>

lemma get_put_digital:
  "get_field f (put_digital f' v i) =
     (if f = f' \<and> f \<in> set digital_fields then Inl v else get_field f i)"
  by (cases f'; cases f) (simp_all add: digital_fields_def)

lemma fold_zero_keeps:
  "get_field f i = Inl 0 \<Longrightarrow> get_field f (fold (\<lambda>(d, f). put_digital f 0) ts i) = Inl 0"
proof (induction ts arbitrary: i)
  case Nil
  then show ?case by simp
next
  case (Cons a ts)
  obtain d f' where a: "a = (d, f')" by (cases a)
  from Cons.prems have "get_field f (put_digital f' 0 i) = Inl 0"
    by (simp add: get_put_digital)
  then show ?case
    using Cons.IH [of "put_digital f' 0 i"] a by simp
qed

lemma fold_zero_resets:
  "(d, f) \<in> set ts \<Longrightarrow> f \<in> set digital_fields \<Longrightarrow>
     get_field f (fold (\<lambda>(d, f). put_digital f 0) ts i) = Inl 0"
proof (induction ts arbitrary: i)
  case Nil
  then show ?case by simp
next
  case (Cons a ts)
  obtain d' f' where a: "a = (d', f')" by (cases a)
  show ?case
  proof (cases "a = (d, f)")
    case True
    then have "get_field f (put_digital f' 0 i) = Inl 0"
      using a Cons.prems(2) by (simp add: get_put_digital)
    then show ?thesis
      using a by (simp add: fold_zero_keeps)
  next
    case False
    with Cons.prems have "(d, f) \<in> set ts" by simp
    then show ?thesis
      using Cons.IH [of "put_digital f' 0 i"] Cons.prems(2) a by simp
  qed
qed

lemma pulse_setInput_pulse:
  assumes "f \<in> set digital_fields" and "pw_now w + 100 \<le> t"
  shows "get_field f (Input (pw_con (pulse_setInput f w))) = Inl 1 \<and>
         get_field f (Input (pw_con (elapse t (pulse_setInput f w)))) = Inl 0"
proof
  show "get_field f (Input (pw_con (pulse_setInput f w))) = Inl 1"
    using assms(1) by (simp add: pulse_setInput_def get_put_digital)
  have "(pw_now w + 100, f) \<in> set (filter (\<lambda>(d, f). d \<le> t) (pw_timers (pulse_setInput f w)))"
    using assms(2) by (simp add: pulse_setInput_def)
  then show "get_field f (Input (pw_con (elapse t (pulse_setInput f w)))) = Inl 0"
    using assms(1) by (simp add: elapse_def fold_zero_resets)
qed

lemma pulsed_field_cases:
  assumes "pulsed_field eventType code val = Some f"
  obtains (key) "eventType = EV_KEY" "sint val > 0"
      "code \<in> {304, 305, 307, 308, 310, 311, 312, 313, 314, 315, 316}"
    | (hat_x) "eventType = EV_ABS" "code = 16" "sint val \<noteq> 0"
    | (hat_y) "eventType = EV_ABS" "code = 17" "sint val \<noteq> 0"
proof (cases "eventType = 1 \<and> sint val > 0")
  case True
  with assms have "code \<in> {304, 305, 307, 308, 310, 311, 312, 313, 314, 315, 316}"
    by (cases code rule: key_code_cases) (simp_all add: pulsed_field_def)
  with True key show ?thesis by (simp add: EV_KEY_def)
next
  case False
  with assms have "eventType = 3 \<and> (code = 16 \<or> code = 17) \<and> sint val \<noteq> 0"
    by (auto simp: pulsed_field_def split: if_splits)
  with hat_x hat_y show ?thesis by (auto simp: EV_ABS_def)
qed

lemma pulsed_field_digital:
  assumes "pulsed_field eventType code val = Some f"
  shows "f \<in> set digital_fields"
  using assms
proof (cases rule: pulsed_field_cases)
  case key
  from key(3) show ?thesis
    using assms key(1,2)
    by (elim insertE emptyE) (simp_all add: pulsed_field_def EV_KEY_def digital_fields_def)
next
  case hat_x
  with assms show ?thesis
    by (auto simp: pulsed_field_def EV_ABS_def digital_fields_def split: if_splits)
next
  case hat_y
  with assms show ?thesis
    by (auto simp: pulsed_field_def EV_ABS_def digital_fields_def split: if_splits)
qed

lemma pulsed_field_handle:
  assumes "pulsed_field eventType code val = Some f"
  shows "pulse_handleInputEvent eventType code val w = pulse_setInput f w"
  using assms
proof (cases rule: pulsed_field_cases)
  case key
  from key(3) show ?thesis
    using assms key(1,2)
    by (elim insertE emptyE)
       (auto simp: pulsed_field_def pulse_handleInputEvent_def EV_KEY_def Let_def)
next
  case hat_x
  with assms show ?thesis
    by (auto simp: pulsed_field_def pulse_handleInputEvent_def EV_KEY_def EV_ABS_def Let_def
        split: if_splits)
next
  case hat_y
  with assms show ?thesis
    by (auto simp: pulsed_field_def pulse_handleInputEvent_def EV_KEY_def EV_ABS_def Let_def
        split: if_splits)
qed

text \<open>
  A press of one of the eleven buttons, or a d-pad move, sets its field to 1, and once
  100 ms have passed the field is 0, whatever else is pending.
\<close>

theorem pulse_resets:
  assumes "pulsed_field eventType code val = Some f" and "pw_now w + 100 \<le> t"
  shows "get_field f (Input (pw_con (pulse_handleInputEvent eventType code val w))) = Inl 1 \<and>
         get_field f (Input (pw_con (elapse t (pulse_handleInputEvent eventType code val w))))
           = Inl 0"
  using assms pulse_setInput_pulse [of f w t]
  by (simp add: pulsed_field_handle pulsed_field_digital)

theorem pulse_resets_witness:
  "Button_A (Input (pw_con (pulse_handleInputEvent EV_KEY 304 1 pulse_start))) = 1 \<and>
   Button_A (Input (pw_con (elapse 100 (pulse_handleInputEvent EV_KEY 304 1 pulse_start)))) = 0"
proof -
  have p: "pulsed_field EV_KEY 304 1 = Some F_Button_A"
    by (simp add: pulsed_field_def EV_KEY_def)
  have n: "pw_now pulse_start + 100 \<le> 100"
    by (simp add: pulse_start_def)
  from pulse_resets [OF p n] show ?thesis by simp
qed

text \<open>
  C7: the code at a press of a stick. A key event of code 317 (or 318) with value 1
  stores 1 in the stick's \<open>Press\<close> and starts no timer, and the field is still 1 after any
  time \<open>t\<close>; a press of button A starts the timer that resets it after 100 ms.
\<close>

theorem stick_press_never_resets:
  "Stick_Left_Press (Input (pw_con (pulse_handleInputEvent EV_KEY 317 1 pulse_start))) = 1 \<and>
   pw_timers (pulse_handleInputEvent EV_KEY 317 1 pulse_start) = [] \<and>
   Stick_Left_Press (Input (pw_con (elapse t
      (pulse_handleInputEvent EV_KEY 317 1 pulse_start)))) = 1 \<and>
   Stick_Right_Press (Input (pw_con (pulse_handleInputEvent EV_KEY 318 1 pulse_start))) = 1 \<and>
   pw_timers (pulse_handleInputEvent EV_KEY 318 1 pulse_start) = [] \<and>
   Stick_Right_Press (Input (pw_con (elapse t
      (pulse_handleInputEvent EV_KEY 318 1 pulse_start)))) = 1 \<and>
   Button_A (Input (pw_con (pulse_handleInputEvent EV_KEY 304 1 pulse_start))) = 1 \<and>
   pw_timers (pulse_handleInputEvent EV_KEY 304 1 pulse_start) = [(100, F_Button_A)] \<and>
   Button_A (Input (pw_con (elapse 100 (pulse_handleInputEvent EV_KEY 304 1 pulse_start)))) = 0"
  by (simp add: pulse_handleInputEvent_def pulse_setInput_def elapse_def pulse_start_def
      EV_KEY_def NewController_def zeroInput_def Let_def)

end
